theory Spec2Isabelle
  imports Complex_Main "HOL-Library.Monad_Syntax"
begin

section \<open>Text: the string operations the printer and the post-processor use\<close>

text \<open>
  A Python \<open>str\<close> is modelled as a \<open>string\<close>; a character stands for the code point of the
  same number (the model covers the code points below 256), so \<open>length\<close> is Python's
  \<open>len\<close>. A raised exception is the value \<open>None\<close> of an option type.
\<close>

text \<open>\<open>string.whitespace\<close>: space, tab, line feed, carriage return, vertical tab, form feed.\<close>

definition whitespace :: string where
  "whitespace = [CHR '' '', CHR 0x09, CHR 0x0A, CHR 0x0D, CHR 0x0B, CHR 0x0C]"

text \<open>\<open>str.isspace\<close> of one character, on the code points below 256.\<close>

definition isspace :: "char \<Rightarrow> bool" where
  "isspace c = (c \<in> set [CHR 0x09, CHR 0x0A, CHR 0x0B, CHR 0x0C, CHR 0x0D, CHR 0x1C, CHR 0x1D,
                          CHR 0x1E, CHR 0x1F, CHR '' '', CHR 0x85, CHR 0xA0])"

text \<open>\<open>s.lstrip(chars)\<close>, \<open>s.rstrip(chars)\<close>, \<open>s.strip(chars)\<close> and \<open>s.strip()\<close>.\<close>

definition lstrip_chars :: "string \<Rightarrow> string \<Rightarrow> string" where
  "lstrip_chars chars s = dropWhile (\<lambda>c. c \<in> set chars) s"

definition rstrip_chars :: "string \<Rightarrow> string \<Rightarrow> string" where
  "rstrip_chars chars s = rev (dropWhile (\<lambda>c. c \<in> set chars) (rev s))"

definition strip_chars :: "string \<Rightarrow> string \<Rightarrow> string" where
  "strip_chars chars s = rstrip_chars chars (lstrip_chars chars s)"

definition strip :: "string \<Rightarrow> string" where
  "strip s = rev (dropWhile isspace (rev (dropWhile isspace s)))"

text \<open>\<open>s.endswith(':')\<close>.\<close>

definition endswith_colon :: "string \<Rightarrow> bool" where
  "endswith_colon s = (s \<noteq> [] \<and> last s = CHR '':'')"

text \<open>
  \<open>str.splitlines()\<close>: a line ends at a line feed, a carriage return (with the line feed
  that follows it, if any), a vertical tab, a form feed, a file, group or record separator
  or a next-line character; the line ends are dropped, and a text that ends with a line end
  has no empty last line.
\<close>

definition linebreak :: "char \<Rightarrow> bool" where
  "linebreak c = (c \<in> set [CHR 0x0A, CHR 0x0B, CHR 0x0C, CHR 0x0D, CHR 0x1C, CHR 0x1D, CHR 0x1E,
                            CHR 0x85])"

fun splitlines_from :: "string \<Rightarrow> string \<Rightarrow> string list" where
  "splitlines_from acc [] = (if acc = [] then [] else [rev acc])"
| "splitlines_from acc [c] = (if linebreak c then [rev acc] else [rev (c # acc)])"
| "splitlines_from acc (c # d # cs) =
     (if c = CHR 0x0D \<and> d = CHR 0x0A then rev acc # splitlines_from [] cs
      else if linebreak c then rev acc # splitlines_from [] (d # cs)
      else splitlines_from (c # acc) (d # cs))"

definition splitlines :: "string \<Rightarrow> string list" where
  "splitlines s = splitlines_from [] s"

text \<open>\<open>sep.join(parts)\<close>.\<close>

fun join :: "string \<Rightarrow> string list \<Rightarrow> string" where
  "join sep [] = []"
| "join sep [x] = x"
| "join sep (x # y # ys) = x @ sep @ join sep (y # ys)"

text \<open>
  \<open>textwrap.dedent\<close> of a text of one line: a line of spaces and tabs only becomes empty,
  any other line loses its leading spaces and tabs. \<open>_get_indent\<close> is called on single
  lines only (the lines \<open>splitlines\<close> returned).
\<close>

definition dedent :: "string \<Rightarrow> string" where
  "dedent line = dropWhile (\<lambda>c. c = CHR '' '' \<or> c = CHR 0x09) line"

definition get_indent :: "string \<Rightarrow> nat" where
  "get_indent line = length line - length (dedent line)"

section \<open>Block compaction: \<open>Minimize.post_process\<close>\<close>

text \<open>
  \<open>lines[i + 2]\<close> inside \<open>try\<close>/\<open>except IndexError\<close>: the line after the following one,
  the empty text when there is none.
\<close>

definition next_line_of :: "string list \<Rightarrow> nat \<Rightarrow> string" where
  "next_line_of lines i = (if i + 2 < length lines then lines ! (i + 2) else [])"

text \<open>The test of the \<open>continue\<close>: the header at \<open>i\<close> is left alone.\<close>

definition skip_merge :: "string list \<Rightarrow> int \<Rightarrow> nat \<Rightarrow> bool" where
  "skip_merge lines ls2 i =
     (let it_line_tabs = get_indent (lines ! i) in
      int i \<noteq> ls2 \<and>
      (it_line_tabs \<ge> get_indent (lines ! (i + 1)) \<or>
       it_line_tabs < get_indent (next_line_of lines i)))"

text \<open>
  The first loop, over the indices of the lines that end with a colon (computed before the
  loop starts). \<open>lines[i + 1]\<close> raises IndexError when the header is the last line.
\<close>

fun merge_loop :: "int \<Rightarrow> nat list \<Rightarrow> string list \<Rightarrow> nat list \<Rightarrow> (string list \<times> nat list) option" where
  "merge_loop ls2 [] lines to_del = Some (lines, to_del)"
| "merge_loop ls2 (i # rest) lines to_del =
     (if i + 1 < length lines then
        (if skip_merge lines ls2 i then merge_loop ls2 rest lines to_del
         else merge_loop ls2 rest (lines[i := lines ! i @ strip (lines ! (i + 1))])
                (to_del @ [i + 1]))
      else None)"

text \<open>
  \<open>del lines[i]\<close> for an integer index: a negative index counts from the end, an index out
  of range raises IndexError.
\<close>

definition del_item :: "int \<Rightarrow> 'a list \<Rightarrow> 'a list option" where
  "del_item i xs =
     (let n = int (length xs); j = (if i < 0 then i + n else i) in
      if 0 \<le> j \<and> j < n then Some (take (nat j) xs @ drop (nat j + 1) xs) else None)"

text \<open>The second loop: the deletions, each index corrected by the number already deleted.\<close>

fun delete_loop :: "nat list \<Rightarrow> int \<Rightarrow> string list \<Rightarrow> string list option" where
  "delete_loop [] offset lines = Some lines"
| "delete_loop (i # rest) offset lines =
     (case del_item (int i - offset) lines of
        None \<Rightarrow> None
      | Some lines' \<Rightarrow> delete_loop rest (offset + 1) lines')"

definition header_indices :: "string list \<Rightarrow> nat list" where
  "header_indices lines = filter (\<lambda>i. endswith_colon (lines ! i)) [0 ..< length lines]"

definition prepare_lines :: "string \<Rightarrow> string list" where
  "prepare_lines source = map (rstrip_chars (whitespace @ '';'')) (splitlines source)"

definition post_process :: "string \<Rightarrow> string option" where
  "post_process source =
     (let lines = prepare_lines source;
          ls2 = int (length lines) - 2
      in case merge_loop ls2 (header_indices lines) lines [] of
           None \<Rightarrow> None
         | Some (lines', to_del) \<Rightarrow>
             (case delete_loop to_del 0 lines' of
                None \<Rightarrow> None
              | Some lines'' \<Rightarrow> Some (join [CHR 0x0A] lines'')))"

text \<open>What the first loop makes of the line \<open>i\<close>, on the lines the loop started from.\<close>

definition merged_line :: "string list \<Rightarrow> int \<Rightarrow> nat \<Rightarrow> string" where
  "merged_line lines ls2 i =
     (if skip_merge lines ls2 i then lines ! i else lines ! i @ strip (lines ! (i + 1)))"

section \<open>Statement termination: \<open>semicolon.py\<close>\<close>

text \<open>
  \<open>add_semicolon_after\<close> is a class attribute holding one mutable set object. The classes
  are modelled with an explicit store: \<open>objects\<close> maps an address to the set stored there,
  \<open>add_semicolon_after\<close> maps a class to the address its attribute is bound to.
\<close>

type_synonym addr = nat

record classes =
  objects :: "addr \<Rightarrow> string set"
  add_semicolon_after :: "string \<rightharpoonup> addr"

text \<open>The state after the \<open>class AddSemicolon\<close> statement has run.\<close>

definition semicolon_module :: classes where
  "semicolon_module =
     \<lparr>objects = (\<lambda>a. {})(0 := {''Return'', ''Delete'', ''Assign'', ''AugAssign'', ''AnnAssign'',
        ''Raise'', ''Assert'', ''Import'', ''ImportFrom'', ''Global'', ''Nonlocal'', ''Expr'',
        ''Pass'', ''Break'', ''Continue''}),
      add_semicolon_after = [''AddSemicolon'' \<mapsto> 0]\<rparr>"

text \<open>\<open>a ^= b\<close> on sets: the symmetric difference, stored into the object \<open>a\<close> itself.\<close>

definition ixor :: "string set \<Rightarrow> string set \<Rightarrow> string set" where
  "ixor a b = (a - b) \<union> (b - a)"

text \<open>
  \<open>__init_subclass__(cls, ignore=...)\<close>, run by \<open>class cls(base, ignore=...)\<close>:
  \<open>cls.add_semicolon_after ^= ignore\<close> reads the attribute (found on the base, the new class
  has none of its own yet), updates that set object in place and binds the attribute of
  \<open>cls\<close> to the same object. A base without the attribute raises AttributeError.
\<close>

definition init_subclass :: "string \<Rightarrow> string \<Rightarrow> string set \<Rightarrow> classes \<Rightarrow> classes option" where
  "init_subclass cls base ignore cs =
     (case add_semicolon_after cs base of
        None \<Rightarrow> None
      | Some a \<Rightarrow>
          Some (cs\<lparr>objects := (objects cs)(a := ixor (objects cs a) ignore),
                   add_semicolon_after := (add_semicolon_after cs)(cls \<mapsto> a)\<rparr>))"

text \<open>The package: \<open>class Minimize(AddSemicolon, ignore={'Import'})\<close> in \<open>__init__.py\<close>.\<close>

definition package :: "classes option" where
  "package = init_subclass ''Minimize'' ''AddSemicolon'' {''Import''} semicolon_module"

text \<open>
  The node classes \<open>ast._Unparser\<close> (the standard library's printer, the base class) has a
  \<open>visit_\<close> method for; \<open>hasattr(self, name)\<close> is membership in this list.
\<close>

definition unparser_visits :: "string list" where
  "unparser_visits =
     [''Module'', ''FunctionType'', ''Expr'', ''NamedExpr'', ''Import'', ''ImportFrom'',
      ''Assign'', ''AugAssign'', ''AnnAssign'', ''Return'', ''Pass'', ''Break'', ''Continue'',
      ''Delete'', ''Assert'', ''Global'', ''Nonlocal'', ''Await'', ''Yield'', ''YieldFrom'',
      ''Raise'', ''Try'', ''TryStar'', ''ExceptHandler'', ''ClassDef'', ''FunctionDef'',
      ''AsyncFunctionDef'', ''For'', ''AsyncFor'', ''If'', ''While'', ''With'', ''AsyncWith'',
      ''JoinedStr'', ''FormattedValue'', ''Name'', ''Constant'', ''List'', ''ListComp'',
      ''GeneratorExp'', ''SetComp'', ''DictComp'', ''comprehension'', ''IfExp'', ''Set'',
      ''Dict'', ''Tuple'', ''UnaryOp'', ''BinOp'', ''Compare'', ''BoolOp'', ''Attribute'',
      ''Call'', ''Subscript'', ''Starred'', ''Ellipsis'', ''Slice'', ''Match'', ''arg'',
      ''arguments'', ''keyword'', ''Lambda'', ''alias'', ''withitem'', ''match_case'',
      ''MatchValue'', ''MatchSingleton'', ''MatchSequence'', ''MatchStar'', ''MatchMapping'',
      ''MatchClass'', ''MatchAs'', ''MatchOr'']"

text \<open>
  \<open>AddSemicolon.__init__\<close>: the names of the visitors an instance of class \<open>cls\<close> wraps,
  read from the set the class attribute is bound to when the instance is made.
\<close>

definition wrapped_names :: "classes \<Rightarrow> string \<Rightarrow> string set option" where
  "wrapped_names cs cls =
     (case add_semicolon_after cs cls of
        None \<Rightarrow> None
      | Some a \<Rightarrow> Some {name \<in> objects cs a. name \<in> set unparser_visits})"

text \<open>The names a \<open>Minimize\<close> printer wraps, in the package.\<close>

definition minimize_names :: "string set" where
  "minimize_names =
     (case package \<bind> (\<lambda>cs. wrapped_names cs ''Minimize'') of None \<Rightarrow> {} | Some W \<Rightarrow> W)"

section \<open>The printer's state and its writing operations\<close>

datatype import_alias = Alias string "string option"

text \<open>
  The state of one printer: \<open>_source\<close> (the fragments written so far), \<open>_indent\<close>,
  \<open>_indent_mem\<close>, and \<open>import_names\<close>. The last is a list of aliases and \<open>None\<close> marks; it
  is an attribute of the class \<open>Minimize\<close>, so a new printer starts with the list the
  previous ones left.
\<close>

record unparser =
  source :: "string list"
  indent :: nat
  indent_mem :: nat
  import_names :: "import_alias option list"

type_synonym visitor = "unparser \<Rightarrow> unparser option"

definition write_str :: "string \<Rightarrow> unparser \<Rightarrow> unparser" where
  "write_str text st = st\<lparr>source := source st @ [text]\<rparr>"

definition maybe_newline :: "unparser \<Rightarrow> unparser" where
  "maybe_newline st = (if source st \<noteq> [] then write_str [CHR 0x0A] st else st)"

definition blocks :: "string list" where
  "blocks = [''try'', ''else'', ''finally'', ''except'', ''except*'', ''class'', ''def'', ''@'',
             ''if'', ''elif'', ''while'', ''with'', ''match'', ''for'', ''async'']"

text \<open>\<open>text.strip().split()[0]\<close>; IndexError when the text is made of white space only.\<close>

definition first_word :: "string \<Rightarrow> string option" where
  "first_word text =
     (let w = takeWhile (\<lambda>c. \<not> isspace c) (strip text) in if w = [] then None else Some w)"

text \<open>\<open>Minimize.fill\<close>.\<close>

definition fill :: "string \<Rightarrow> visitor" where
  "fill text st =
     (case (if text = [] then Some False
            else map_option (\<lambda>w. w \<in> set blocks) (first_word text)) of
        None \<Rightarrow> None
      | Some opens \<Rightarrow>
          Some (write_str text
            (if opens \<or> indent st \<noteq> indent_mem st
                \<or> (source st \<noteq> [] \<and> last (source st) = '':'')
             then write_str (replicate (indent st) (CHR '' ''))
                    ((maybe_newline st)\<lparr>indent_mem := indent st\<rparr>)
             else st)))"

text \<open>\<open>Minimize.delimit\<close> around a body; \<open>delimit_if\<close> and \<open>require_parens\<close> of the base class.\<close>

definition delimit :: "string \<Rightarrow> string \<Rightarrow> visitor \<Rightarrow> visitor" where
  "delimit start stop body st =
     (let st1 = (if source st \<noteq> [] \<and> strip start = ''(''
                 then st\<lparr>source := butlast (source st) @ [rstrip_chars '' '' (last (source st))]\<rparr>
                 else st)
      in case body (write_str start st1) of
           None \<Rightarrow> None
         | Some st2 \<Rightarrow> Some (write_str stop st2))"

definition delimit_if :: "string \<Rightarrow> string \<Rightarrow> bool \<Rightarrow> visitor \<Rightarrow> visitor" where
  "delimit_if start stop condition body = (if condition then delimit start stop body else body)"

text \<open>\<open>block()\<close> of the base class, without a type comment.\<close>

definition block :: "visitor \<Rightarrow> visitor" where
  "block body st =
     (case body ((write_str '':'' st)\<lparr>indent := indent st + 1\<rparr>) of
        None \<Rightarrow> None
      | Some st' \<Rightarrow> Some (st'\<lparr>indent := indent st' - 1\<rparr>))"

text \<open>\<open>for x in seq: f(x)\<close> and \<open>interleave(inter, f, seq)\<close>.\<close>

fun for_each :: "('a \<Rightarrow> visitor) \<Rightarrow> 'a list \<Rightarrow> visitor" where
  "for_each f [] st = Some st"
| "for_each f (x # xs) st = (case f x st of None \<Rightarrow> None | Some st' \<Rightarrow> for_each f xs st')"

definition interleave :: "visitor \<Rightarrow> ('a \<Rightarrow> visitor) \<Rightarrow> 'a list \<Rightarrow> visitor" where
  "interleave between f seq st =
     (case seq of
        [] \<Rightarrow> Some st
      | x # xs \<Rightarrow> f x st \<bind> for_each (\<lambda>y s. between s \<bind> f y) xs)"

text \<open>
  \<open>and_add\<close>: the wrapper an instance puts around a visitor, and the lookup of
  \<open>NodeVisitor.visit\<close>, which finds the wrapper on the instance when the name is wrapped and
  the method of the class otherwise.
\<close>

definition and_add :: "visitor \<Rightarrow> visitor" where
  "and_add func st = (case func st of None \<Rightarrow> None | Some st' \<Rightarrow> Some (write_str '';'' st'))"

definition dispatch :: "string set \<Rightarrow> string \<Rightarrow> visitor \<Rightarrow> visitor" where
  "dispatch wrapped name func = (if name \<in> wrapped then and_add func else func)"

section \<open>Syntax trees\<close>

text \<open>
  The part of the tree vocabulary the properties below are about: names, constants, binary,
  unary and comparison operations; imports, assignments, expression statements, returns,
  \<open>pass\<close> and conditionals. A constant carries an integer, a truth value, the ellipsis,
  \<open>None\<close> or a float; a float is carried by the text \<open>str(Decimal(str(value)))\<close> that the
  decimal library prints for it (\<open>0.0\<close> for the float zero, \<open>1E+20\<close> for ten to the twenty).
  Trees are the parser's: no node occurs twice in a tree, and no type comments.
\<close>

datatype operator = Add | Sub | Mult | MatMult | Div | Mod | LShift | RShift | BitOr | BitXor
  | BitAnd | FloorDiv | Pow_op

datatype unaryop = Invert | Not_op | UAdd | USub

datatype cmpop = Eq | NotEq | Lt | LtE | Gt | GtE | Is | IsNot | In | NotIn

datatype pyvalue = CInt int | CBool bool | CEllipsis | CNone | CFloat string

datatype expr =
    Name string
  | Constant pyvalue
  | BinOp expr operator expr
  | UnaryOp unaryop expr
  | Compare expr "cmpop list" "expr list"

datatype stmt =
    Import "import_alias list"
  | Assign "expr list" expr
  | Expr expr
  | Return "expr option"
  | Pass
  | If expr "stmt list" "stmt list"

datatype modl = Module "stmt list"

section \<open>Precedence levels: \<open>ast._Precedence\<close>\<close>

datatype precedence = P_NAMED_EXPR | P_TUPLE | P_YIELD | P_TEST | P_OR | P_AND | P_NOT | P_CMP
  | P_EXPR | P_BXOR | P_BAND | P_SHIFT | P_ARITH | P_TERM | P_FACTOR | P_POWER | P_AWAIT | P_ATOM

text \<open>\<open>BOR = EXPR\<close>: the two names are one level.\<close>

abbreviation P_BOR :: precedence where
  "P_BOR \<equiv> P_EXPR"

text \<open>The integer of a level (the enumeration counts from 1).\<close>

fun level :: "precedence \<Rightarrow> nat" where
  "level P_NAMED_EXPR = 1"
| "level P_TUPLE = 2"
| "level P_YIELD = 3"
| "level P_TEST = 4"
| "level P_OR = 5"
| "level P_AND = 6"
| "level P_NOT = 7"
| "level P_CMP = 8"
| "level P_EXPR = 9"
| "level P_BXOR = 10"
| "level P_BAND = 11"
| "level P_SHIFT = 12"
| "level P_ARITH = 13"
| "level P_TERM = 14"
| "level P_FACTOR = 15"
| "level P_POWER = 16"
| "level P_AWAIT = 17"
| "level P_ATOM = 18"

text \<open>\<open>next()\<close>: the level one above, the level itself at the top.\<close>

fun next_level :: "precedence \<Rightarrow> precedence" where
  "next_level P_NAMED_EXPR = P_TUPLE"
| "next_level P_TUPLE = P_YIELD"
| "next_level P_YIELD = P_TEST"
| "next_level P_TEST = P_OR"
| "next_level P_OR = P_AND"
| "next_level P_AND = P_NOT"
| "next_level P_NOT = P_CMP"
| "next_level P_CMP = P_EXPR"
| "next_level P_EXPR = P_BXOR"
| "next_level P_BXOR = P_BAND"
| "next_level P_BAND = P_SHIFT"
| "next_level P_SHIFT = P_ARITH"
| "next_level P_ARITH = P_TERM"
| "next_level P_TERM = P_FACTOR"
| "next_level P_FACTOR = P_POWER"
| "next_level P_POWER = P_AWAIT"
| "next_level P_AWAIT = P_ATOM"
| "next_level P_ATOM = P_ATOM"

text \<open>The operator tables: \<open>binop\<close>, \<open>binop_precedence\<close>, \<open>binop_rassoc\<close>, \<open>unop\<close>,
  \<open>unop_precedence\<close> and \<open>cmpops\<close>.\<close>

fun binop :: "operator \<Rightarrow> string" where
  "binop Add = ''+''"
| "binop Sub = ''-''"
| "binop Mult = ''*''"
| "binop MatMult = ''@''"
| "binop Div = ''/''"
| "binop Mod = ''%''"
| "binop LShift = ''<<''"
| "binop RShift = ''>>''"
| "binop BitOr = ''|''"
| "binop BitXor = ''^''"
| "binop BitAnd = ''&''"
| "binop FloorDiv = ''//''"
| "binop Pow_op = ''**''"

fun binop_precedence :: "operator \<Rightarrow> precedence" where
  "binop_precedence Add = P_ARITH"
| "binop_precedence Sub = P_ARITH"
| "binop_precedence Mult = P_TERM"
| "binop_precedence MatMult = P_TERM"
| "binop_precedence Div = P_TERM"
| "binop_precedence Mod = P_TERM"
| "binop_precedence LShift = P_SHIFT"
| "binop_precedence RShift = P_SHIFT"
| "binop_precedence BitOr = P_BOR"
| "binop_precedence BitXor = P_BXOR"
| "binop_precedence BitAnd = P_BAND"
| "binop_precedence FloorDiv = P_TERM"
| "binop_precedence Pow_op = P_POWER"

definition binop_rassoc :: "string list" where
  "binop_rassoc = [''**'']"

fun unop :: "unaryop \<Rightarrow> string" where
  "unop Invert = ''~''"
| "unop Not_op = ''not''"
| "unop UAdd = ''+''"
| "unop USub = ''-''"

fun unop_precedence :: "unaryop \<Rightarrow> precedence" where
  "unop_precedence Invert = P_FACTOR"
| "unop_precedence Not_op = P_NOT"
| "unop_precedence UAdd = P_FACTOR"
| "unop_precedence USub = P_FACTOR"

fun cmpops :: "cmpop \<Rightarrow> string" where
  "cmpops Eq = ''==''"
| "cmpops NotEq = ''!=''"
| "cmpops Lt = ''<''"
| "cmpops LtE = ''<=''"
| "cmpops Gt = ''>''"
| "cmpops GtE = ''>=''"
| "cmpops Is = '' is ''"
| "cmpops IsNot = '' is not ''"
| "cmpops In = '' in ''"
| "cmpops NotIn = '' not in ''"

text \<open>
  \<open>require_parens(precedence, node)\<close>: \<open>node_precedence\<close> is \<open>get_precedence(node)\<close>, the
  level the parent recorded for the node with \<open>set_precedence\<close>, \<open>TEST\<close> when none was.
\<close>

definition require_parens :: "precedence \<Rightarrow> precedence \<Rightarrow> visitor \<Rightarrow> visitor" where
  "require_parens prec node_precedence body =
     delimit_if ''('' '')'' (level node_precedence > level prec) body"

section \<open>Integers and floats of the interpreter\<close>

text \<open>\<open>repr\<close> of an integer and of a truth value.\<close>

fun repr_nat :: "nat \<Rightarrow> string" where
  "repr_nat n =
     (if n < 10 then [''0123456789'' ! n]
      else repr_nat (n div 10) @ [''0123456789'' ! (n mod 10)])"

declare repr_nat.simps [simp del]

definition repr_int :: "int \<Rightarrow> string" where
  "repr_int v = (if v < 0 then ''-'' @ repr_nat (nat (- v)) else repr_nat (nat v))"

definition repr_bool :: "bool \<Rightarrow> string" where
  "repr_bool b = (if b then ''True'' else ''False'')"

text \<open>
  A finite float is modelled by the rational number it stands for. \<open>long_as_double\<close> is the
  conversion of a positive integer to the nearest float (ties to the even significand of 53
  bits), OverflowError from \<open>2 ^ 1024\<close> on; \<open>long_frexp\<close> gives the pair \<open>(x, e)\<close> with
  \<open>x\<close> in \<open>[1/2, 1)\<close> rounded in the same way and the integer near \<open>x * 2 ^ e\<close>.
\<close>

fun bit_length :: "nat \<Rightarrow> nat" where
  "bit_length n = (if n = 0 then 0 else Suc (bit_length (n div 2)))"

declare bit_length.simps [simp del]

definition round_shift :: "int \<Rightarrow> nat \<Rightarrow> int" where
  "round_shift v sh =
     (let q = v div 2 ^ sh; r = v mod 2 ^ sh; half = 2 ^ sh div 2 in
      if sh = 0 then v
      else if r > half \<or> (r = half \<and> odd q) then q + 1 else q)"

definition long_as_double :: "int \<Rightarrow> rat option" where
  "long_as_double v =
     (let sh = bit_length (nat v) - 53; x = round_shift v sh * 2 ^ sh in
      if x \<ge> 2 ^ 1024 then None else Some (of_int x))"

definition long_frexp :: "int \<Rightarrow> rat \<times> int" where
  "long_frexp v =
     (let n = bit_length (nat v); m = round_shift v (n - 53) in
      if m = 2 ^ 53 then (1 / 2, int n + 1) else (of_int m / 2 ^ 53, int n))"

text \<open>
  The sum and the product of two floats are the exact results rounded to a float:
  \<open>round_double\<close> rounds to 53 significant bits, ties to even (the exponent range is not
  modelled).
\<close>

definition pow2 :: "int \<Rightarrow> rat" where
  "pow2 e = (if e \<ge> 0 then 2 ^ nat e else 1 / 2 ^ nat (- e))"

definition floor_log2 :: "rat \<Rightarrow> int" where
  "floor_log2 q =
     (let (a, b) = quotient_of q;
          e = int (bit_length (nat a)) - int (bit_length (nat b))
      in if q < pow2 e then e - 1 else e)"

definition round_double :: "rat \<Rightarrow> rat" where
  "round_double q =
     (if q = 0 then 0
      else let e = floor_log2 \<bar>q\<bar> - 52;
               s = \<bar>q\<bar> / pow2 e;
               f = \<lfloor>s\<rfloor>;
               m = (if s - of_int f > 1 / 2 \<or> (s - of_int f = 1 / 2 \<and> odd f) then f + 1 else f)
           in sgn q * of_int m * pow2 e)"

text \<open>
  The logarithms of the C library are not part of the program: they are a parameter, a pair
  of functions from floats to floats.
\<close>

record mathlib =
  libm_log10 :: "rat \<Rightarrow> rat"
  libm_log2 :: "rat \<Rightarrow> rat"

text \<open>
  \<open>math.log10(value)\<close> and \<open>math.log2(value)\<close> for an integer: ValueError unless the
  integer is positive; the library's function at the float of the integer, or, when the
  integer is too large for a float, \<open>func(x) + func(2.0) * e\<close> for its \<open>frexp\<close> pair.
\<close>

definition math_log :: "(rat \<Rightarrow> rat) \<Rightarrow> int \<Rightarrow> rat option" where
  "math_log func v =
     (if v \<le> 0 then None
      else case long_as_double v of
             Some x \<Rightarrow> Some (func x)
           | None \<Rightarrow>
               (let (x, e) = long_frexp v in
                Some (round_double (func x + round_double (func 2 * of_int e)))))"

text \<open>\<open>not y % 1\<close> for a float \<open>y\<close>, and \<open>int(y)\<close>.\<close>

definition whole :: "rat \<Rightarrow> bool" where
  "whole y = (y = of_int \<lfloor>y\<rfloor>)"

definition int_of_float :: "rat \<Rightarrow> int" where
  "int_of_float y = (if y \<ge> 0 then \<lfloor>y\<rfloor> else \<lceil>y\<rceil>)"

text \<open>
  \<open>value >= bound and (not log(value) % 1)\<close>, then \<open>int(log(value))\<close>: the exponent when the
  rewrite is taken, \<open>None\<close> inside when it is not; ValueError outside.
\<close>

definition power_of :: "(rat \<Rightarrow> rat) \<Rightarrow> int \<Rightarrow> int \<Rightarrow> int option option" where
  "power_of func bound v =
     (if v \<ge> bound then
        (case math_log func v of
           None \<Rightarrow> None
         | Some y \<Rightarrow> Some (if whole y then Some (int_of_float y) else None))
      else Some None)"

section \<open>The printer: \<open>Minimize\<close> over \<open>ast._Unparser\<close>\<close>

text \<open>
  What \<open>traverse\<close> is called on: a list of statements, or a node. An expression node comes
  with the level \<open>set_precedence\<close> recorded for it (\<open>P_TEST\<close> when the parent recorded
  none): the printer keeps the levels in a dictionary keyed by the node.
\<close>

datatype node =
    NBody "stmt list"
  | NModule modl
  | NStmt stmt
  | NExpr precedence expr
  | NAlias import_alias

text \<open>\<open>node.__class__.__name__\<close>.\<close>

fun class_name :: "node \<Rightarrow> string" where
  "class_name (NBody items) = ''list''"
| "class_name (NModule m) = ''Module''"
| "class_name (NStmt (Import names)) = ''Import''"
| "class_name (NStmt (Assign targets v)) = ''Assign''"
| "class_name (NStmt (Expr v)) = ''Expr''"
| "class_name (NStmt (Return v)) = ''Return''"
| "class_name (NStmt Pass) = ''Pass''"
| "class_name (NStmt (If test body orelse)) = ''If''"
| "class_name (NExpr p (Name x)) = ''Name''"
| "class_name (NExpr p (Constant c)) = ''Constant''"
| "class_name (NExpr p (BinOp l op r)) = ''BinOp''"
| "class_name (NExpr p (UnaryOp op e)) = ''UnaryOp''"
| "class_name (NExpr p (Compare l ops comparators)) = ''Compare''"
| "class_name (NAlias a) = ''alias''"

text \<open>
  The visitors take \<open>self.traverse\<close> as the argument \<open>trav\<close>. First the expressions:
  \<open>visit_Name\<close> and \<open>visit_UnaryOp\<close> of the base class, \<open>visit_Constant\<close>, \<open>visit_BinOp\<close>
  and \<open>visit_Compare\<close> of \<open>Minimize\<close>.
\<close>

definition visit_Name :: "string \<Rightarrow> visitor" where
  "visit_Name ident st = Some (write_str ident st)"

text \<open>
  \<open>visit_Constant\<close>. The tests run in the source's order: float, then integer (a truth
  value is an integer, and below both bounds), then the ellipsis, then the rest. A rewritten
  integer is printed by traversing a new \<open>BinOp\<close> node, for which no level is recorded.
\<close>

definition visit_Constant :: "mathlib \<Rightarrow> (node \<Rightarrow> visitor) \<Rightarrow> pyvalue \<Rightarrow> visitor" where
  "visit_Constant L trav c st =
     (case c of
        CFloat text \<Rightarrow>
          (let short = strip_chars ''0'' text in
           Some (write_str (if short = ''.'' then ''0.'' else short) st))
      | CInt v \<Rightarrow>
          (case power_of (libm_log10 L) (10 ^ 5) v of
             None \<Rightarrow> None
           | Some (Some power_10) \<Rightarrow>
               trav (NExpr P_TEST (BinOp (Constant (CInt 10)) Pow_op (Constant (CInt power_10)))) st
           | Some None \<Rightarrow>
               (case power_of (libm_log2 L) (2 ^ 17) v of
                  None \<Rightarrow> None
                | Some (Some power_2) \<Rightarrow>
                    trav (NExpr P_TEST (BinOp (Constant (CInt 2)) Pow_op (Constant (CInt power_2)))) st
                | Some None \<Rightarrow> Some (write_str (repr_int v) st)))
      | CBool b \<Rightarrow> Some (write_str (repr_bool b) st)
      | CEllipsis \<Rightarrow> Some (write_str ''...'' st)
      | CNone \<Rightarrow> Some (write_str ''None'' st))"

definition visit_BinOp :: "(node \<Rightarrow> visitor) \<Rightarrow> precedence \<Rightarrow> expr \<Rightarrow> operator \<Rightarrow> expr \<Rightarrow> visitor" where
  "visit_BinOp trav node_precedence left op right =
     (let operator = binop op;
          operator_precedence = binop_precedence op;
          left_precedence = (if operator \<in> set binop_rassoc then next_level operator_precedence
                             else operator_precedence);
          right_precedence = (if operator \<in> set binop_rassoc then operator_precedence
                              else next_level operator_precedence)
      in require_parens operator_precedence node_precedence
           (\<lambda>st. trav (NExpr left_precedence left) st
                 \<bind> (\<lambda>s. Some (write_str operator s))
                 \<bind> trav (NExpr right_precedence right)))"

definition visit_UnaryOp :: "(node \<Rightarrow> visitor) \<Rightarrow> precedence \<Rightarrow> unaryop \<Rightarrow> expr \<Rightarrow> visitor" where
  "visit_UnaryOp trav node_precedence op operand =
     (let operator = unop op;
          operator_precedence = unop_precedence op
      in require_parens operator_precedence node_precedence
           (\<lambda>st. trav (NExpr operator_precedence operand)
                   (if operator_precedence \<noteq> P_FACTOR
                    then write_str '' '' (write_str operator st)
                    else write_str operator st)))"

definition visit_Compare :: "(node \<Rightarrow> visitor) \<Rightarrow> precedence \<Rightarrow> expr \<Rightarrow> cmpop list \<Rightarrow> expr list \<Rightarrow> visitor" where
  "visit_Compare trav node_precedence left ops comparators =
     require_parens P_CMP node_precedence
       (\<lambda>st. trav (NExpr (next_level P_CMP) left) st
             \<bind> for_each (\<lambda>(cmp, e) s. trav (NExpr (next_level P_CMP) e) (write_str (cmpops cmp) s))
                   (zip ops comparators))"

text \<open>
  The statements: \<open>visit_alias\<close>, \<open>visit_Expr\<close>, \<open>visit_Pass\<close>, \<open>visit_If\<close> and
  \<open>visit_Module\<close> of the base class (no docstring: the trees have no string constants);
  \<open>visit_Import\<close>, \<open>visit_Assign\<close> and \<open>visit_Return\<close> of \<open>Minimize\<close>.
\<close>

definition visit_alias :: "import_alias \<Rightarrow> visitor" where
  "visit_alias a st =
     (case a of
        Alias name asname \<Rightarrow>
          (case asname of
             None \<Rightarrow> Some (write_str name st)
           | Some n \<Rightarrow>
               Some (if n \<noteq> [] then write_str ('' as '' @ n) (write_str name st)
                     else write_str name st)))"

definition visit_Import :: "import_alias list \<Rightarrow> visitor" where
  "visit_Import names st = Some (st\<lparr>import_names := import_names st @ map Some names\<rparr>)"

definition visit_Assign :: "(node \<Rightarrow> visitor) \<Rightarrow> expr list \<Rightarrow> expr \<Rightarrow> visitor" where
  "visit_Assign trav targets v st =
     fill [] st
       \<bind> for_each (\<lambda>target s. trav (NExpr P_TUPLE target) s \<bind> (\<lambda>s'. Some (write_str ''='' s')))
             targets
       \<bind> trav (NExpr P_TEST v)"

definition visit_Expr :: "(node \<Rightarrow> visitor) \<Rightarrow> expr \<Rightarrow> visitor" where
  "visit_Expr trav v st = fill [] st \<bind> trav (NExpr P_YIELD v)"

definition return_space :: "expr \<Rightarrow> bool" where
  "return_space v =
     ((case v of Constant c \<Rightarrow> c \<noteq> CEllipsis | _ \<Rightarrow> True) \<and>
      (case v of UnaryOp op e \<Rightarrow> op = Not_op | _ \<Rightarrow> True))"

definition visit_Return :: "(node \<Rightarrow> visitor) \<Rightarrow> expr option \<Rightarrow> visitor" where
  "visit_Return trav v st =
     fill ''return'' st
       \<bind> (\<lambda>s. case v of
                 None \<Rightarrow> Some s
               | Some e \<Rightarrow> trav (NExpr P_TEST e) (if return_space e then write_str '' '' s else s))"

definition visit_Pass :: visitor where
  "visit_Pass st = fill ''pass'' st"

text \<open>
  The \<open>while\<close> loop of \<open>visit_If\<close>, which prints an \<open>orelse\<close> made of one \<open>If\<close> as an
  \<open>elif\<close>, and the final \<open>else\<close>.
\<close>

fun visit_orelse :: "(node \<Rightarrow> visitor) \<Rightarrow> stmt list \<Rightarrow> visitor" where
  "visit_orelse trav [If test body orelse] st =
     fill ''elif '' st
       \<bind> trav (NExpr P_TEST test)
       \<bind> block (trav (NBody body))
       \<bind> visit_orelse trav orelse"
| "visit_orelse trav orelse st =
     (if orelse \<noteq> [] then fill ''else'' st \<bind> block (trav (NBody orelse)) else Some st)"

definition visit_If :: "(node \<Rightarrow> visitor) \<Rightarrow> expr \<Rightarrow> stmt list \<Rightarrow> stmt list \<Rightarrow> visitor" where
  "visit_If trav test body orelse st =
     fill ''if '' st
       \<bind> trav (NExpr P_TEST test)
       \<bind> block (trav (NBody body))
       \<bind> visit_orelse trav orelse"

definition visit_Module :: "(node \<Rightarrow> visitor) \<Rightarrow> modl \<Rightarrow> visitor" where
  "visit_Module trav m = (case m of Module body \<Rightarrow> trav (NBody body))"

text \<open>The method \<open>visit_<class name>\<close> of a node.\<close>

fun visitor_of :: "mathlib \<Rightarrow> (node \<Rightarrow> visitor) \<Rightarrow> node \<Rightarrow> visitor" where
  "visitor_of L trav (NBody items) = for_each (\<lambda>item. trav (NStmt item)) items"
| "visitor_of L trav (NModule m) = visit_Module trav m"
| "visitor_of L trav (NStmt (Import names)) = visit_Import names"
| "visitor_of L trav (NStmt (Assign targets v)) = visit_Assign trav targets v"
| "visitor_of L trav (NStmt (Expr v)) = visit_Expr trav v"
| "visitor_of L trav (NStmt (Return v)) = visit_Return trav v"
| "visitor_of L trav (NStmt Pass) = visit_Pass"
| "visitor_of L trav (NStmt (If test body orelse)) = visit_If trav test body orelse"
| "visitor_of L trav (NExpr p (Name x)) = visit_Name x"
| "visitor_of L trav (NExpr p (Constant c)) = visit_Constant L trav c"
| "visitor_of L trav (NExpr p (BinOp l op r)) = visit_BinOp trav p l op r"
| "visitor_of L trav (NExpr p (UnaryOp op e)) = visit_UnaryOp trav p op e"
| "visitor_of L trav (NExpr p (Compare l ops comparators)) = visit_Compare trav p l ops comparators"
| "visitor_of L trav (NAlias a) = visit_alias a"

text \<open>
  The flush inside \<open>traverse\<close>: its test, and the statements under the \<open>if\<close>, which print
  the aliases gathered so far as one \<open>import\<close> statement and empty the list.
\<close>

definition needs_flush :: "unparser \<Rightarrow> bool" where
  "needs_flush st = (import_names st \<noteq> [] \<and> last (import_names st) \<noteq> None)"

definition flush :: "(node \<Rightarrow> visitor) \<Rightarrow> visitor" where
  "flush trav st =
     fill ''import '' (st\<lparr>import_names := import_names st @ [None]\<rparr>)
       \<bind> (\<lambda>s. interleave (\<lambda>s'. Some (write_str '','' s')) (\<lambda>a. trav (NAlias a))
                  [a. Some a \<leftarrow> import_names s] s)
       \<bind> (\<lambda>s. Some ((write_str '';'' s)\<lparr>import_names := []\<rparr>))"

text \<open>
  \<open>Minimize.traverse\<close>. \<open>L\<close> is the math library, \<open>W\<close> the set of the visitor names the
  instance wrapped when it was made. The first argument bounds the depth of the calls: the
  interpreter raises RecursionError beyond its limit.
\<close>

primrec traverse :: "mathlib \<Rightarrow> string set \<Rightarrow> nat \<Rightarrow> node \<Rightarrow> visitor" where
  "traverse L W 0 = (\<lambda>nd st. None)"
| "traverse L W (Suc depth) = (\<lambda>nd st.
     case nd of
       NBody items \<Rightarrow> for_each (\<lambda>item. traverse L W depth (NStmt item)) items st
     | _ \<Rightarrow>
         (if needs_flush st \<and> class_name nd \<noteq> ''Import''
          then flush (traverse L W depth) st else Some st)
           \<bind> dispatch W (class_name nd) (visitor_of L (traverse L W depth) nd))"

text \<open>\<open>Minimize.visit\<close>: the text, and the printer as the pass leaves it.\<close>

definition visit :: "mathlib \<Rightarrow> string set \<Rightarrow> nat \<Rightarrow> modl \<Rightarrow> unparser \<Rightarrow> (string \<times> unparser) option" where
  "visit L W limit tree st =
     traverse L W limit (NModule tree) (st\<lparr>source := []\<rparr>)
       \<bind> (\<lambda>st'. post_process (concat (source st')) \<bind> (\<lambda>text. Some (text, st')))"

text \<open>
  \<open>Minimize()\<close>: a new printer. Its \<open>import_names\<close> is the list of the class, as the
  printers before it left it.
\<close>

definition new_Minimize :: "import_alias option list \<Rightarrow> unparser" where
  "new_Minimize names = \<lparr>source = [], indent = 0, indent_mem = 0, import_names = names\<rparr>"

section \<open>The entry point: \<open>minimize\<close>\<close>

text \<open>
  \<open>repr\<close> of a bytes object (a byte is a character here): \<open>b'...'\<close>, in double quotes when
  the bytes hold a single quote and no double quote; the quote and the backslash are
  escaped, tab, line feed and carriage return are written \<open>\t\<close>, \<open>\n\<close>, \<open>\r\<close>, any other
  byte outside the printable ASCII range as \<open>\xNN\<close>.
\<close>

definition repr_byte :: "char \<Rightarrow> char \<Rightarrow> string" where
  "repr_byte quote c =
     (let n = (of_char c :: nat) in
      if c = quote \<or> c = CHR 0x5C then [CHR 0x5C, c]
      else if c = CHR 0x09 then [CHR 0x5C, CHR ''t'']
      else if c = CHR 0x0A then [CHR 0x5C, CHR ''n'']
      else if c = CHR 0x0D then [CHR 0x5C, CHR ''r'']
      else if n < 32 \<or> n \<ge> 127
        then [CHR 0x5C, CHR ''x'', ''0123456789abcdef'' ! (n div 16), ''0123456789abcdef'' ! (n mod 16)]
      else [c])"

definition repr_bytes :: "string \<Rightarrow> string" where
  "repr_bytes b =
     (let quote = (if CHR 0x27 \<in> set b \<and> CHR 0x22 \<notin> set b then CHR 0x22 else CHR 0x27) in
      CHR ''b'' # quote # concat (map (repr_byte quote) b) @ [quote])"

text \<open>
  What \<open>minimize\<close> calls outside the package is a parameter: the math library, the parser
  (\<open>None\<close> for a SyntaxError), the four codecs of the loop (\<open>compress c text\<close> is
  \<open>mod.compress(text.encode())\<close>), \<open>lzma.compress(text.encode(), lzma.FORMAT_ALONE)\<close>, and
  the interpreter's recursion limit.
\<close>

datatype codec = Lzma | Zlib | Gzip | Bz2

fun mod_name :: "codec \<Rightarrow> string" where
  "mod_name Lzma = ''lzma''"
| "mod_name Zlib = ''zlib''"
| "mod_name Gzip = ''gzip''"
| "mod_name Bz2 = ''bz2''"

record environment =
  math_lib :: mathlib
  ast_parse :: "string \<Rightarrow> modl option"
  compress :: "codec \<Rightarrow> string \<Rightarrow> string"
  compress_alone :: "string \<Rightarrow> string"
  recursion_limit :: nat

text \<open>\<open>f"exec(__import__({name!r}).decompress({payload!r}))"\<close>.\<close>

definition stub :: "string \<Rightarrow> string \<Rightarrow> string" where
  "stub name payload =
     ''exec(__import__('' @ [CHR 0x27] @ name @ [CHR 0x27] @ '').decompress(''
       @ repr_bytes payload @ ''))''"

definition codec_stub :: "environment \<Rightarrow> string \<Rightarrow> codec \<Rightarrow> string" where
  "codec_stub E minimized c = stub (mod_name c) (compress E c minimized)"

definition alone_stub :: "environment \<Rightarrow> string \<Rightarrow> string" where
  "alone_stub E minimized = stub ''lzma'' (compress_alone E minimized)"

text \<open>The body of \<open>minimize\<close> after the first line: the choice among the candidates.\<close>

definition shorter_of :: "string \<Rightarrow> string \<Rightarrow> string" where
  "shorter_of codes val = (if length val < length codes then val else codes)"

definition select_output :: "environment \<Rightarrow> string \<Rightarrow> string \<Rightarrow> bool \<Rightarrow> bool \<Rightarrow> string" where
  "select_output E raw_code minimized compress_flag compress_required =
     (let codes = (if length minimized < length raw_code then minimized else raw_code);
          codes = (if compress_required then alone_stub E minimized else codes)
      in if compress_required \<or> compress_flag
         then shorter_of
                (foldl (\<lambda>codes c. shorter_of codes (codec_stub E minimized c)) codes
                   [Lzma, Zlib, Gzip, Bz2])
                (alone_stub E minimized)
         else codes)"

text \<open>
  \<open>minimize(raw_code, compress, compress_required)\<close>. The list \<open>names\<close> is
  \<open>Minimize.import_names\<close> when the call starts; the result is the returned text and the
  list when the call ends.
\<close>

definition minimize :: "environment \<Rightarrow> import_alias option list \<Rightarrow> string \<Rightarrow> bool \<Rightarrow> bool
    \<Rightarrow> (string \<times> import_alias option list) option" where
  "minimize E names raw_code compress_flag compress_required =
     (case ast_parse E raw_code of
        None \<Rightarrow> None
      | Some tree \<Rightarrow>
          (case package \<bind> (\<lambda>cs. wrapped_names cs ''Minimize'') of
             None \<Rightarrow> None
           | Some W \<Rightarrow>
               (case visit (math_lib E) W (recursion_limit E) tree (new_Minimize names) of
                  None \<Rightarrow> None
                | Some (text, st) \<Rightarrow>
                    Some (select_output E raw_code (strip_chars (whitespace @ '';'') text)
                            compress_flag compress_required,
                          import_names st))))"

section \<open>The standalone entry point: \<open>add_semicolons\<close>\<close>

text \<open>
  \<open>fill\<close> and \<open>visit_Import\<close> of \<open>ast._Unparser\<close>, which an \<open>AddSemicolon\<close> printer
  inherits (\<open>W\<close> is the set of the names the printer wrapped), and the call
  \<open>NodeVisitor.visit\<close> makes for an \<open>Import\<close> node on a printer of class \<open>cls\<close> made in
  the class state \<open>cs\<close>.
\<close>

definition unparser_fill :: "string \<Rightarrow> unparser \<Rightarrow> unparser" where
  "unparser_fill text st = write_str (replicate (4 * indent st) (CHR '' '') @ text) (maybe_newline st)"

definition unparser_visit_Import :: "string set \<Rightarrow> import_alias list \<Rightarrow> visitor" where
  "unparser_visit_Import W names st =
     interleave (\<lambda>s. Some (write_str '', '' s)) (\<lambda>a. dispatch W ''alias'' (visit_alias a)) names
       (unparser_fill ''import '' st)"

definition visit_Import_node :: "classes \<Rightarrow> string \<Rightarrow> import_alias list \<Rightarrow> visitor" where
  "visit_Import_node cs cls names st =
     (case wrapped_names cs cls of
        None \<Rightarrow> None
      | Some W \<Rightarrow> dispatch W ''Import'' (unparser_visit_Import W names) st)"

section \<open>A sample environment\<close>

text \<open>
  A math library that answers exactly at the exact powers of the base and with a
  fraction elsewhere; a parser table for four source texts; the bytes the codecs of the
  standard library return for the text \<open>x=1\<close> (gzip with time stamp 0).
\<close>

definition exact_log :: "int \<Rightarrow> nat \<Rightarrow> rat \<Rightarrow> rat" where
  "exact_log base bound x =
     (case find (\<lambda>k. of_int (base ^ k) = x) [0 ..< bound] of
        Some k \<Rightarrow> of_nat k
      | None \<Rightarrow> 1 / 2)"

definition sample_math :: mathlib where
  "sample_math = \<lparr>libm_log10 = exact_log 10 23, libm_log2 = exact_log 2 64\<rparr>"

definition sample_parse :: "string \<Rightarrow> modl option" where
  "sample_parse raw_code =
     (if raw_code = ''x = 1'' then Some (Module [Assign [Name ''x''] (Constant (CInt 1))])
      else if raw_code = ''import os'' then Some (Module [Import [Alias ''os'' None]])
      else if raw_code = ''if True:'' @ [CHR 0x0A] @ ''    x = 1'' @ [CHR 0x0A] @ ''    y = 2''
                           @ [CHR 0x0A]
        then Some (Module [If (Constant (CBool True))
                             [Assign [Name ''x''] (Constant (CInt 1)),
                              Assign [Name ''y''] (Constant (CInt 2))] []])
      else if raw_code = ''if True:'' @ [CHR 0x0A] @ ''    return ...'' @ [CHR 0x0A]
        then Some (Module [If (Constant (CBool True)) [Return (Some (Constant CEllipsis))] []])
      else None)"

definition sample_compress :: "codec \<Rightarrow> string \<Rightarrow> string" where
  "sample_compress c text =
     map char_of
       (case c of
          Lzma \<Rightarrow> [253, 55, 122, 88, 90, 0, 0, 4, 230, 214, 180, 70, 2, 0, 33, 1, 22, 0, 0, 0,
                    116, 47, 229, 163, 1, 0, 2, 120, 61, 49, 0, 0, 143, 161, 53, 72, 178, 209,
                    195, 204, 0, 1, 27, 3, 11, 47, 185, 16, 31, 182, 243, 125, 1, 0, 0, 0, 0, 4,
                    89, 90 :: nat]
        | Zlib \<Rightarrow> [120, 156, 171, 176, 53, 4, 0, 2, 22, 0, 231]
        | Gzip \<Rightarrow> [31, 139, 8, 0, 0, 0, 0, 0, 2, 3, 171, 176, 53, 4, 0, 126, 168, 149, 158, 3,
                    0, 0, 0]
        | Bz2 \<Rightarrow> [66, 90, 104, 57, 49, 65, 89, 38, 83, 89, 235, 158, 225, 162, 0, 0, 1, 8, 128,
                   32, 2, 0, 64, 32, 0, 33, 152, 25, 129, 97, 119, 36, 83, 133, 9, 14, 185, 238,
                   26, 32])"

definition sample_alone :: "string \<Rightarrow> string" where
  "sample_alone text =
     map char_of
       [93, 0, 0, 128, 0, 255, 255, 255, 255, 255, 255, 255, 255, 0, 60, 15, 66, 48, 127, 255,
        255, 255, 248, 0, 0, 0 :: nat]"

definition sample_env :: environment where
  "sample_env = \<lparr>math_lib = sample_math, ast_parse = sample_parse, compress = sample_compress,
                  compress_alone = sample_alone, recursion_limit = 1000\<rparr>"

text \<open>
  A second environment, for a source text outside ASCII: the expression statement made of
  one identifier, the letter of code point 233 (e with an acute accent) 60 times. Its
  encoding has 120 bytes; the codecs of the standard library return the bytes below for
  them (gzip with time stamp 0).
\<close>

definition accent_name :: string where
  "accent_name = replicate 60 (CHR 0xE9)"

definition accent_parse :: "string \<Rightarrow> modl option" where
  "accent_parse raw_code =
     (if raw_code = accent_name then Some (Module [Expr (Name accent_name)]) else None)"

definition accent_compress :: "codec \<Rightarrow> string \<Rightarrow> string" where
  "accent_compress c text =
     map char_of
       (case c of
          Lzma \<Rightarrow> [253, 55, 122, 88, 90, 0, 0, 4, 230, 214, 180, 70, 2, 0, 33, 1, 22, 0, 0, 0,
                    116, 47, 229, 163, 224, 0, 119, 0, 8, 93, 0, 97, 170, 105, 144, 16, 0, 0, 0,
                    0, 22, 131, 250, 248, 62, 109, 148, 39, 0, 1, 36, 120, 131, 173, 176, 143,
                    31, 182, 243, 125, 1, 0, 0, 0, 0, 4, 89, 90 :: nat]
        | Zlib \<Rightarrow> [120, 156, 59, 188, 242, 240, 128, 64, 0, 46, 24, 85, 81]
        | Gzip \<Rightarrow> [31, 139, 8, 0, 0, 0, 0, 0, 2, 3, 59, 188, 242, 240, 128, 64, 0, 79, 110, 111,
                    130, 120, 0, 0, 0]
        | Bz2 \<Rightarrow> [66, 90, 104, 57, 49, 65, 89, 38, 83, 89, 100, 16, 62, 241, 0, 0, 59, 128, 20,
                   0, 32, 8, 0, 32, 0, 48, 128, 77, 70, 161, 168, 113, 119, 36, 83, 133, 9, 6,
                   65, 3, 239, 16])"

definition accent_alone :: "string \<Rightarrow> string" where
  "accent_alone text =
     map char_of
       [93, 0, 0, 128, 0, 255, 255, 255, 255, 255, 255, 255, 255, 0, 97, 170, 105, 144, 24, 61,
        255, 255, 255, 252, 32, 0, 0 :: nat]"

definition accent_env :: environment where
  "accent_env = \<lparr>math_lib = sample_math, ast_parse = accent_parse, compress = accent_compress,
                  compress_alone = accent_alone, recursion_limit = 1000\<rparr>"

section \<open>The specification's rules, stated on their own\<close>

text \<open>
  The parenthesisation rule in the specification's words: a subexpression gets parentheses
  if and only if its own precedence is strictly lower than the precedence its position
  requires, or equal to it on the side of the operator that does not associate.
  \<open>spec_expr required strict e\<close> prints \<open>e\<close> by that rule at a position that requires
  \<open>required\<close>, \<open>strict\<close> telling whether equal precedence is refused there. The operands
  of a binary operator are at its own level, strict on the left for the right-associative
  power and on the right for every other operator; the operands of a comparison are at
  the level of comparisons, strict; the operand of a unary operator is at its level.
\<close>

fun own_precedence :: "expr \<Rightarrow> precedence" where
  "own_precedence (Name x) = P_ATOM"
| "own_precedence (Constant c) = P_ATOM"
| "own_precedence (BinOp l op r) = binop_precedence op"
| "own_precedence (UnaryOp op e) = unop_precedence op"
| "own_precedence (Compare l ops comparators) = P_CMP"

definition spec_needs_parens :: "precedence \<Rightarrow> bool \<Rightarrow> expr \<Rightarrow> bool" where
  "spec_needs_parens required strict e =
     (level (own_precedence e) < level required
      \<or> (level (own_precedence e) = level required \<and> strict))"

definition spec_wrap :: "bool \<Rightarrow> (unparser \<Rightarrow> unparser) \<Rightarrow> unparser \<Rightarrow> unparser" where
  "spec_wrap parens body st =
     (if parens
      then write_str '')''
             (body (write_str ''(''
                (if source st \<noteq> []
                 then st\<lparr>source := butlast (source st) @ [rstrip_chars '' '' (last (source st))]\<rparr>
                 else st)))
      else body st)"

definition spec_literal :: "pyvalue \<Rightarrow> string" where
  "spec_literal c =
     (case c of
        CInt v \<Rightarrow> repr_int v
      | CBool b \<Rightarrow> repr_bool b
      | CEllipsis \<Rightarrow> ''...''
      | CNone \<Rightarrow> ''None''
      | CFloat text \<Rightarrow> (if strip_chars ''0'' text = ''.'' then ''0.'' else strip_chars ''0'' text))"

fun spec_expr :: "precedence \<Rightarrow> bool \<Rightarrow> expr \<Rightarrow> unparser \<Rightarrow> unparser"
  and spec_operands :: "cmpop list \<Rightarrow> expr list \<Rightarrow> unparser \<Rightarrow> unparser" where
  "spec_expr required strict (Name x) st = write_str x st"
| "spec_expr required strict (Constant c) st = write_str (spec_literal c) st"
| "spec_expr required strict (BinOp l op r) st =
     spec_wrap (spec_needs_parens required strict (BinOp l op r))
       (\<lambda>s. spec_expr (binop_precedence op) (op \<noteq> Pow_op) r
               (write_str (binop op) (spec_expr (binop_precedence op) (op = Pow_op) l s))) st"
| "spec_expr required strict (UnaryOp op e) st =
     spec_wrap (spec_needs_parens required strict (UnaryOp op e))
       (\<lambda>s. spec_expr (unop_precedence op) False e
               (if op = Not_op then write_str '' '' (write_str (unop op) s)
                else write_str (unop op) s)) st"
| "spec_expr required strict (Compare l ops comparators) st =
     spec_wrap (spec_needs_parens required strict (Compare l ops comparators))
       (\<lambda>s. spec_operands ops comparators (spec_expr P_CMP True l s)) st"
| "spec_operands (cmp # ops) (e # es) st =
     spec_operands ops es (spec_expr P_CMP True e (write_str (cmpops cmp) st))"
| "spec_operands [] es st = st"
| "spec_operands ops [] st = st"

text \<open>
  The integers an expression holds are all printed as literals: none of them is at or above
  a bound with a logarithm the library reports as a whole number.
\<close>

definition literal_int :: "mathlib \<Rightarrow> int \<Rightarrow> bool" where
  "literal_int L v =
     (power_of (libm_log10 L) (10 ^ 5) v = Some None \<and> power_of (libm_log2 L) (2 ^ 17) v = Some None)"

fun literal_ints :: "mathlib \<Rightarrow> expr \<Rightarrow> bool" where
  "literal_ints L (Name x) = True"
| "literal_ints L (Constant c) = (case c of CInt v \<Rightarrow> literal_int L v | _ \<Rightarrow> True)"
| "literal_ints L (BinOp l op r) = (literal_ints L l \<and> literal_ints L r)"
| "literal_ints L (UnaryOp op e) = literal_ints L e"
| "literal_ints L (Compare l ops comparators) =
     (literal_ints L l \<and> list_all (literal_ints L) comparators)"

text \<open>The depth of an expression: the number of nested \<open>traverse\<close> calls it takes.\<close>

fun depth_of :: "expr \<Rightarrow> nat" where
  "depth_of (Name x) = 1"
| "depth_of (Constant c) = 1"
| "depth_of (BinOp l op r) = Suc (max (depth_of l) (depth_of r))"
| "depth_of (UnaryOp op e) = Suc (depth_of e)"
| "depth_of (Compare l ops comparators) =
     Suc (max (depth_of l) (fold (\<lambda>e m. max (depth_of e) m) comparators 0))"

text \<open>
  The selection rule in the specification's words: the result is a candidate, no candidate
  is shorter, and every candidate generated before it is strictly longer.
\<close>

definition first_shortest :: "string list \<Rightarrow> string \<Rightarrow> bool" where
  "first_shortest candidates r =
     (\<exists>i < length candidates. r = candidates ! i
        \<and> (\<forall>j < length candidates. length r \<le> length (candidates ! j))
        \<and> (\<forall>j < i. length r < length (candidates ! j)))"

text \<open>
  The length in bytes of a text, \<open>len(text.encode())\<close>, the size of the file the command line
  writes: UTF-8 takes one byte for a code point below 128 and two for a code point from 128
  to 255 (a character here is a code point below 256).
\<close>

definition byte_length :: "string \<Rightarrow> nat" where
  "byte_length text = sum_list (map (\<lambda>c. if of_char c < (128 :: nat) then 1 else 2) text)"

section \<open>Statement termination: properties\<close>

lemma package_names:
  "package \<bind> (\<lambda>cs. wrapped_names cs ''Minimize'') =
     Some {''Return'', ''Delete'', ''Assign'', ''AugAssign'', ''AnnAssign'', ''Raise'', ''Assert'',
           ''ImportFrom'', ''Global'', ''Nonlocal'', ''Expr'', ''Pass'', ''Break'', ''Continue''}"
  by (auto simp: package_def init_subclass_def semicolon_module_def wrapped_names_def ixor_def
      unparser_visits_def)

lemma minimize_names_eq:
  "minimize_names =
     {''Return'', ''Delete'', ''Assign'', ''AugAssign'', ''AnnAssign'', ''Raise'', ''Assert'',
      ''ImportFrom'', ''Global'', ''Nonlocal'', ''Expr'', ''Pass'', ''Break'', ''Continue''}"
  by (simp add: minimize_names_def package_names)

lemma package_minimize_names:
  "package \<bind> (\<lambda>cs. wrapped_names cs ''Minimize'') = Some minimize_names"
  by (simp add: minimize_names_eq package_names)

text \<open>
  C10. Declaring a subclass of \<open>AddSemicolon\<close> with an \<open>ignore\<close> set that holds
  \<open>Import\<close> updates, in place, the set object the attribute of the base class is bound to:
  afterwards the attribute of \<open>AddSemicolon\<close> is still bound to the same object, the new
  class is bound to it too, the object holds the symmetric difference, and an
  \<open>AddSemicolon\<close> printer made afterwards visits an \<open>Import\<close> node with the plain method
  of the base printer, where one made before appended the marker \<open>;\<close>.
\<close>

theorem subclass_ignore_in_place:
  assumes "add_semicolon_after cs ''AddSemicolon'' = Some a"
    and "''Import'' \<in> objects cs a" and "''Import'' \<in> ignore"
  shows "\<exists>cs'. init_subclass cls ''AddSemicolon'' ignore cs = Some cs'
           \<and> add_semicolon_after cs' ''AddSemicolon'' = Some a
           \<and> add_semicolon_after cs' cls = Some a
           \<and> objects cs' a = ixor (objects cs a) ignore
           \<and> visit_Import_node cs ''AddSemicolon'' names st
               = and_add (unparser_visit_Import {n \<in> objects cs a. n \<in> set unparser_visits} names) st
           \<and> visit_Import_node cs' ''AddSemicolon'' names st
               = unparser_visit_Import {n \<in> objects cs' a. n \<in> set unparser_visits} names st"
proof -
  let ?cs' = "cs\<lparr>objects := (objects cs)(a := ixor (objects cs a) ignore),
                 add_semicolon_after := (add_semicolon_after cs)(cls \<mapsto> a)\<rparr>"
  let ?W = "{n \<in> objects cs a. n \<in> set unparser_visits}"
  let ?W' = "{n \<in> objects ?cs' a. n \<in> set unparser_visits}"
  have i: "init_subclass cls ''AddSemicolon'' ignore cs = Some ?cs'"
    using assms(1) by (simp add: init_subclass_def)
  have b: "add_semicolon_after ?cs' ''AddSemicolon'' = Some a"
    using assms(1) by simp
  have c: "add_semicolon_after ?cs' cls = Some a"
    by simp
  have o: "objects ?cs' a = ixor (objects cs a) ignore"
    by simp
  have w: "wrapped_names cs ''AddSemicolon'' = Some ?W"
    using assms(1) by (simp add: wrapped_names_def)
  have w': "wrapped_names ?cs' ''AddSemicolon'' = Some ?W'"
    using b by (simp add: wrapped_names_def)
  have m: "''Import'' \<in> ?W"
    using assms(2) by (simp add: unparser_visits_def)
  have m': "''Import'' \<notin> ?W'"
    using assms(2,3) by (simp add: ixor_def)
  have v: "visit_Import_node cs ''AddSemicolon'' names st = and_add (unparser_visit_Import ?W names) st"
    unfolding visit_Import_node_def w option.case dispatch_def by (simp only: m if_True)
  have v': "visit_Import_node ?cs' ''AddSemicolon'' names st = unparser_visit_Import ?W' names st"
    unfolding visit_Import_node_def w' option.case dispatch_def by (simp only: m' if_False)
  show ?thesis
    by (intro exI [of _ ?cs'] conjI i b c o v v')
qed

text \<open>
  The theorem at the package's own declaration, \<open>class Minimize(AddSemicolon,
  ignore={'Import'})\<close>: the standalone printer writes \<open>import os\<close> with no marker.
\<close>

theorem subclass_ignore_in_place_witness:
  "add_semicolon_after semicolon_module ''AddSemicolon'' = Some 0
   \<and> ''Import'' \<in> objects semicolon_module 0
   \<and> (\<exists>cs'. package = Some cs'
         \<and> add_semicolon_after cs' ''AddSemicolon'' = Some 0
         \<and> ''Import'' \<notin> objects cs' 0
         \<and> visit_Import_node semicolon_module ''AddSemicolon'' [Alias ''os'' None] (new_Minimize [])
             = Some ((new_Minimize [])\<lparr>source := [''import '', ''os'', '';'']\<rparr>)
         \<and> visit_Import_node cs' ''AddSemicolon'' [Alias ''os'' None] (new_Minimize [])
             = Some ((new_Minimize [])\<lparr>source := [''import '', ''os'']\<rparr>))"
proof -
  have a: "add_semicolon_after semicolon_module ''AddSemicolon'' = Some 0"
    by (simp add: semicolon_module_def)
  have b: "''Import'' \<in> objects semicolon_module 0"
    by (simp add: semicolon_module_def)
  have c: "''Import'' \<in> {''Import''}" by simp
  have d: "''alias'' \<notin> W \<Longrightarrow> unparser_visit_Import W [Alias ''os'' None] (new_Minimize [])
             = Some ((new_Minimize [])\<lparr>source := [''import '', ''os'']\<rparr>)" for W
    by (simp add: unparser_visit_Import_def unparser_fill_def maybe_newline_def new_Minimize_def
        interleave_def visit_alias_def write_str_def dispatch_def)
  from subclass_ignore_in_place [OF a b c, of "''Minimize''" "[Alias ''os'' None]" "new_Minimize []"]
  obtain cs' where i: "init_subclass ''Minimize'' ''AddSemicolon'' {''Import''} semicolon_module = Some cs'"
    and r: "add_semicolon_after cs' ''AddSemicolon'' = Some 0"
    and o: "objects cs' 0 = ixor (objects semicolon_module 0) {''Import''}"
    and v: "visit_Import_node semicolon_module ''AddSemicolon'' [Alias ''os'' None] (new_Minimize [])
               = and_add (unparser_visit_Import
                   {n \<in> objects semicolon_module 0. n \<in> set unparser_visits} [Alias ''os'' None])
                   (new_Minimize [])"
    and v': "visit_Import_node cs' ''AddSemicolon'' [Alias ''os'' None] (new_Minimize [])
               = unparser_visit_Import {n \<in> objects cs' 0. n \<in> set unparser_visits}
                   [Alias ''os'' None] (new_Minimize [])"
    by blast
  have n: "''alias'' \<notin> {n \<in> objects semicolon_module 0. n \<in> set unparser_visits}"
    by (simp add: semicolon_module_def)
  have n': "''alias'' \<notin> {n \<in> objects cs' 0. n \<in> set unparser_visits}"
    unfolding o by (simp add: semicolon_module_def ixor_def)
  have io: "''Import'' \<notin> objects cs' 0"
    unfolding o using b by (simp add: ixor_def)
  have p: "package = Some cs'"
    using i by (simp add: package_def)
  have v1: "visit_Import_node semicolon_module ''AddSemicolon'' [Alias ''os'' None] (new_Minimize [])
             = Some ((new_Minimize [])\<lparr>source := [''import '', ''os'', '';'']\<rparr>)"
    unfolding v and_add_def d [OF n] by (simp add: write_str_def new_Minimize_def)
  have v2: "visit_Import_node cs' ''AddSemicolon'' [Alias ''os'' None] (new_Minimize [])
             = Some ((new_Minimize [])\<lparr>source := [''import '', ''os'']\<rparr>)"
    unfolding v' d [OF n'] by (rule refl)
  show ?thesis
    by (intro conjI a b exI [of _ cs'] p r io v1 v2)
qed

section \<open>Float constants: properties\<close>

lemma strip_zeros_around_point:
  "strip_chars ''0'' (ip @ ''.'' @ fp)
     = dropWhile (\<lambda>c. c = CHR ''0'') ip @ ''.'' @ rev (dropWhile (\<lambda>c. c = CHR ''0'') (rev fp))"
proof -
  have l: "dropWhile (\<lambda>c. c = CHR ''0'') (ip @ CHR ''.'' # fp)
             = dropWhile (\<lambda>c. c = CHR ''0'') ip @ CHR ''.'' # fp"
    by (induction ip) auto
  have r: "dropWhile (\<lambda>c. c = CHR ''0'') (xs @ CHR ''.'' # ys)
             = dropWhile (\<lambda>c. c = CHR ''0'') xs @ CHR ''.'' # ys" for xs ys
    by (induction xs) auto
  show ?thesis
    by (simp add: strip_chars_def lstrip_chars_def rstrip_chars_def l r)
qed

lemma point_alone: "(xs @ ''.'' @ f = ''.'') = (xs = [] \<and> f = [])"
  by (cases xs) simp_all

text \<open>
  C9, as amended. A float constant whose decimal text is \<open>ip.fp\<close> is written as that text
  without the zeros that lead \<open>ip\<close> and without the zeros that end \<open>fp\<close>; when nothing but
  the point is left, it is written \<open>0.\<close> (with the point).
\<close>

theorem float_constant_text:
  "visit_Constant L trav (CFloat (ip @ ''.'' @ fp)) st =
     Some (write_str
       (let i = dropWhile (\<lambda>c. c = CHR ''0'') ip;
            f = rev (dropWhile (\<lambda>c. c = CHR ''0'') (rev fp))
        in if i = [] \<and> f = [] then ''0.'' else i @ ''.'' @ f) st)"
  unfolding visit_Constant_def pyvalue.case Let_def strip_zeros_around_point point_alone by (rule refl)

text \<open>The float zero, whose decimal text is \<open>0.0\<close>, is written \<open>0.\<close> and not \<open>0\<close>.\<close>

theorem float_zero_counterexample:
  "visit_Constant sample_math (traverse sample_math minimize_names 0) (CFloat ''0.0'') (new_Minimize [])
     = Some (write_str ''0.'' (new_Minimize []))
   \<and> write_str ''0.'' (new_Minimize []) \<noteq> write_str ''0'' (new_Minimize [])"
  by (simp add: visit_Constant_def strip_chars_def lstrip_chars_def rstrip_chars_def write_str_def
      new_Minimize_def)


section \<open>The printer: evaluation rules\<close>

lemma not_wrapped [simp]:
  "''Import'' \<notin> minimize_names" "''Module'' \<notin> minimize_names" "''If'' \<notin> minimize_names"
  "''Name'' \<notin> minimize_names" "''Constant'' \<notin> minimize_names" "''BinOp'' \<notin> minimize_names"
  "''UnaryOp'' \<notin> minimize_names" "''Compare'' \<notin> minimize_names" "''alias'' \<notin> minimize_names"
  by (simp_all add: minimize_names_eq)

lemma wrapped [simp]:
  "''Assign'' \<in> minimize_names" "''Expr'' \<in> minimize_names" "''Return'' \<in> minimize_names"
  "''Pass'' \<in> minimize_names"
  by (simp_all add: minimize_names_eq)

section \<open>Import coalescing: properties\<close>

lemma post_process_empty: "post_process [] = Some []"
  by (simp add: post_process_def prepare_lines_def splitlines_def header_indices_def)

lemma traverse_zero [simp]: "traverse L W 0 nd st = None"
  by simp

lemma traverse_body [simp]:
  "traverse L W (Suc d) (NBody items) st = for_each (\<lambda>item. traverse L W d (NStmt item)) items st"
  by simp

lemma traverse_module:
  "traverse L W (Suc d) (NModule m) st =
     (if needs_flush st then flush (traverse L W d) st else Some st)
       \<bind> dispatch W ''Module'' (visit_Module (traverse L W d) m)"
  by simp

lemma traverse_stmt:
  "traverse L W (Suc d) (NStmt s) st =
     (if needs_flush st \<and> class_name (NStmt s) \<noteq> ''Import''
      then flush (traverse L W d) st else Some st)
       \<bind> dispatch W (class_name (NStmt s)) (visitor_of L (traverse L W d) (NStmt s))"
  by simp

lemma traverse_expr:
  "traverse L W (Suc d) (NExpr p e) st =
     (if needs_flush st then flush (traverse L W d) st else Some st)
       \<bind> dispatch W (class_name (NExpr p e)) (visitor_of L (traverse L W d) (NExpr p e))"
  by (cases e) simp_all

lemma traverse_alias:
  "traverse L W (Suc d) (NAlias a) st =
     (if needs_flush st then flush (traverse L W d) st else Some st)
       \<bind> dispatch W ''alias'' (visit_alias a)"
  by simp

declare traverse.simps [simp del]

lemma traverse_imports:
  "for_each (\<lambda>item. traverse L minimize_names (Suc n) (NStmt item)) (map Import nss) st
     = Some (st\<lparr>import_names := import_names st @ map Some (concat nss)\<rparr>)"
proof (induction nss arbitrary: st)
  case Nil
  then show ?case by simp
next
  case (Cons ns nss)
  have "traverse L minimize_names (Suc n) (NStmt (Import ns)) st
          = Some (st\<lparr>import_names := import_names st @ map Some ns\<rparr>)"
    by (simp add: traverse_stmt dispatch_def visit_Import_def)
  then show ?case
    by (simp add: Cons.IH)
qed

text \<open>
  C1, where the code departs from it. The names of consecutive imports are gathered in
  \<open>import_names\<close> and printed by the next node that is not an import; nothing prints them
  when the traversal ends. For a module made of import statements only, the text returned is
  empty and every name is still in the list: no imported name appears in the output.
\<close>

theorem imports_at_the_end_are_dropped:
  "visit L minimize_names (Suc (Suc (Suc n))) (Module (map Import nss)) (new_Minimize [])
     = Some ([], (new_Minimize [])\<lparr>import_names := map Some (concat nss)\<rparr>)"
  by (simp add: visit_def new_Minimize_def needs_flush_def dispatch_def visit_Module_def
      traverse_module traverse_imports post_process_empty)


text \<open>
  C5, where the code departs from it. \<open>import_names\<close> belongs to the class and is not
  emptied when a pass ends: the import that the first call leaves in it is printed by the
  second call, whose text differs from the text the same call returns from an empty list.
\<close>

theorem import_names_leak_between_passes:
  "minimize sample_env [] ''import os'' False False = Some ([], [Some (Alias ''os'' None)])
   \<and> minimize sample_env [Some (Alias ''os'' None)]
         (''if True:'' @ [CHR 0x0A] @ ''    x = 1'' @ [CHR 0x0A] @ ''    y = 2'' @ [CHR 0x0A]) False False
       = Some (''import os'' @ [CHR 0x0A] @ ''if True:x=1;y=2'', [])
   \<and> minimize sample_env []
         (''if True:'' @ [CHR 0x0A] @ ''    x = 1'' @ [CHR 0x0A] @ ''    y = 2'' @ [CHR 0x0A]) False False
       = Some (''if True:x=1;y=2'', [])"
  by code_simp

section \<open>Integer constants: properties\<close>

lemma bit_length_10_16:
  "bit_length 10000000000000000 = 54" "bit_length 10000000000000001 = 54"
  by (simp_all add: bit_length.simps)

lemma float_of_10_16:
  "long_as_double (10 ^ 16) = Some (10 ^ 16)" "long_as_double (10 ^ 16 + 1) = Some (10 ^ 16)"
  by (simp_all add: long_as_double_def bit_length_10_16 round_shift_def Let_def)

lemma math_log_10_16:
  "math_log func (10 ^ 16 + 1) = math_log func (10 ^ 16)"
  using float_of_10_16 by (simp add: math_log_def)

lemma power_of_10_16:
  "bound \<le> 10 ^ 16 \<Longrightarrow> power_of func bound (10 ^ 16 + 1) = power_of func bound (10 ^ 16)"
  using math_log_10_16 [of func] by (simp add: power_of_def)

lemma visit_Constant_10_16:
  "visit_Constant L trav (CInt (10 ^ 16 + 1)) st = visit_Constant L trav (CInt (10 ^ 16)) st
   \<or> (visit_Constant L trav (CInt (10 ^ 16)) st = Some (write_str (repr_int (10 ^ 16)) st))"
proof -
  have a: "power_of (libm_log10 L) (10 ^ 5) (10 ^ 16 + 1) = power_of (libm_log10 L) (10 ^ 5) (10 ^ 16)"
    by (rule power_of_10_16) simp
  have b: "power_of (libm_log2 L) (2 ^ 17) (10 ^ 16 + 1) = power_of (libm_log2 L) (2 ^ 17) (10 ^ 16)"
    by (rule power_of_10_16) simp
  show ?thesis
    unfolding visit_Constant_def pyvalue.case a b
    by (auto split: option.splits)
qed

lemma repr_10_16: "repr_int (10 ^ 16) = ''10000000000000000''"
  by (simp add: repr_int_def repr_nat.simps)

text \<open>
  C3, where the code departs from it. The test for a power is made on the float nearest to
  the integer, so it cannot tell \<open>10 ^ 16 + 1\<close> from \<open>10 ^ 16\<close>: whatever the math
  library answers, the printer does not both rewrite \<open>10 ^ 16\<close> to \<open>10**16\<close> and print
  \<open>10 ^ 16 + 1\<close> as its literal.
\<close>

theorem power_rewrite_not_exact:
  "\<not> (traverse L minimize_names (Suc (Suc (Suc n))) (NExpr p (Constant (CInt (10 ^ 16)))) (new_Minimize [])
         = Some ((new_Minimize [])\<lparr>source := [''10'', ''**'', ''16'']\<rparr>)
      \<and> traverse L minimize_names (Suc (Suc (Suc n))) (NExpr p (Constant (CInt (10 ^ 16 + 1)))) (new_Minimize [])
         = Some ((new_Minimize [])\<lparr>source := [''10000000000000001'']\<rparr>))"
proof -
  let ?st = "new_Minimize []"
  have nf: "\<not> needs_flush ?st" by (simp add: needs_flush_def new_Minimize_def)
  have t: "traverse L minimize_names (Suc d) (NExpr p (Constant (CInt v))) ?st
             = visit_Constant L (traverse L minimize_names d) (CInt v) ?st" for d v
    using nf by (simp add: traverse_expr dispatch_def)
  from visit_Constant_10_16 [of L "traverse L minimize_names (Suc (Suc n))" ?st]
  show ?thesis
    unfolding t by (auto simp: repr_10_16 write_str_def new_Minimize_def)
qed


section \<open>End to end: properties\<close>

lemma small_int [simp]:
  "v < 10 ^ 5 \<Longrightarrow> visit_Constant L trav (CInt v) st = Some (write_str (repr_int v) st)"
  by (simp add: visit_Constant_def power_of_def)

lemma other_constants [simp]:
  "visit_Constant L trav (CBool b) st = Some (write_str (repr_bool b) st)"
  "visit_Constant L trav CEllipsis st = Some (write_str ''...'' st)"
  "visit_Constant L trav CNone st = Some (write_str ''None'' st)"
  by (simp_all add: visit_Constant_def)

lemma fill_simps:
  "fill [] st = Some (write_str [] (if indent st \<noteq> indent_mem st \<or> (source st \<noteq> [] \<and> last (source st) = '':'')
             then write_str (replicate (indent st) (CHR '' ''))
                    ((maybe_newline st)\<lparr>indent_mem := indent st\<rparr>)
             else st))"
  "fill ''if '' st = Some (write_str ''if '' (write_str (replicate (indent st) (CHR '' ''))
                    ((maybe_newline st)\<lparr>indent_mem := indent st\<rparr>)))"
  "fill ''return'' st = Some (write_str ''return'' (if indent st \<noteq> indent_mem st \<or> (source st \<noteq> [] \<and> last (source st) = '':'')
             then write_str (replicate (indent st) (CHR '' ''))
                    ((maybe_newline st)\<lparr>indent_mem := indent st\<rparr>)
             else st))"
  by (simp_all add: fill_def first_word_def strip_def isspace_def blocks_def)

lemma post_process_examples:
  "post_process (''if True:'' @ [CHR 0x0A] @ '' x=1;y=2;'') = Some ''if True:x=1;y=2''"
  "post_process (''if True:'' @ [CHR 0x0A] @ '' return...;'') = Some ''if True:return...''"
  by code_simp+

lemma visit_example_1:
  "visit L minimize_names (Suc (Suc (Suc (Suc (Suc (Suc n))))))
     (Module [If (Constant (CBool True))
                [Assign [Name ''x''] (Constant (CInt 1)), Assign [Name ''y''] (Constant (CInt 2))] []])
     (new_Minimize [])
   = Some (''if True:x=1;y=2'',
       \<lparr>source = [[], ''if '', ''True'', '':'', [CHR 0x0A], '' '', [], ''x'', ''='', ''1'', '';'', [],
                  ''y'', ''='', ''2'', '';''],
        indent = 0, indent_mem = Suc 0, import_names = []\<rparr>)"
  using post_process_examples(1)
  by (simp add: visit_def new_Minimize_def needs_flush_def dispatch_def visit_Module_def
      traverse_module traverse_stmt traverse_expr visit_If_def visit_Assign_def fill_simps block_def
      visit_Name_def and_add_def write_str_def maybe_newline_def repr_bool_def repr_int_def repr_nat.simps)

lemma visit_example_2:
  "visit L minimize_names (Suc (Suc (Suc (Suc (Suc (Suc n))))))
     (Module [If (Constant (CBool True)) [Return (Some (Constant CEllipsis))] []])
     (new_Minimize [])
   = Some (''if True:return...'',
       \<lparr>source = [[], ''if '', ''True'', '':'', [CHR 0x0A], '' '', ''return'', ''...'', '';''],
        indent = 0, indent_mem = Suc 0, import_names = []\<rparr>)"
  using post_process_examples(2)
  by (simp add: visit_def new_Minimize_def needs_flush_def dispatch_def visit_Module_def
      traverse_module traverse_stmt traverse_expr visit_If_def visit_Return_def return_space_def
      fill_simps block_def
      visit_Name_def and_add_def write_str_def maybe_newline_def repr_bool_def repr_int_def repr_nat.simps)

lemma stub_long: "30 < length (stub name payload)"
  by (simp add: stub_def)

lemma shorter_of_stub: "length codes \<le> 30 \<Longrightarrow> shorter_of codes (stub name payload) = codes"
  using stub_long [of name payload] by (simp add: shorter_of_def)

lemma select_output_short:
  "length minimized < length raw_code \<Longrightarrow> length minimized \<le> 30 \<Longrightarrow>
   select_output E raw_code minimized True False = minimized"
  by (simp add: select_output_def codec_stub_def alone_stub_def shorter_of_stub)

lemma strip_examples:
  "strip_chars (whitespace @ '';'') ''if True:x=1;y=2'' = ''if True:x=1;y=2''"
  "strip_chars (whitespace @ '';'') ''if True:return...'' = ''if True:return...''"
  by (simp_all add: strip_chars_def lstrip_chars_def rstrip_chars_def whitespace_def)

text \<open>
  C8. \<open>minimize\<close> on the text \<open>if True:\<close>, \<open>    x = 1\<close>, \<open>    y = 2\<close> (three lines)
  returns \<open>if True:x=1;y=2\<close>, and on \<open>if True:\<close>, \<open>    return ...\<close> it returns
  \<open>if True:return...\<close>: with the default arguments, from an empty \<open>import_names\<close>, for
  the trees the parser gives for these texts, whatever the codecs and the math library are.
\<close>

theorem minimize_examples:
  assumes "ast_parse E (''if True:'' @ [CHR 0x0A] @ ''    x = 1'' @ [CHR 0x0A] @ ''    y = 2'' @ [CHR 0x0A])
             = Some (Module [If (Constant (CBool True))
                               [Assign [Name ''x''] (Constant (CInt 1)),
                                Assign [Name ''y''] (Constant (CInt 2))] []])"
    and "ast_parse E (''if True:'' @ [CHR 0x0A] @ ''    return ...'' @ [CHR 0x0A])
             = Some (Module [If (Constant (CBool True)) [Return (Some (Constant CEllipsis))] []])"
    and "6 \<le> recursion_limit E"
  shows "minimize E [] (''if True:'' @ [CHR 0x0A] @ ''    x = 1'' @ [CHR 0x0A] @ ''    y = 2'' @ [CHR 0x0A])
             True False = Some (''if True:x=1;y=2'', [])
         \<and> minimize E [] (''if True:'' @ [CHR 0x0A] @ ''    return ...'' @ [CHR 0x0A]) True False
             = Some (''if True:return...'', [])"
proof -
  from assms(3) have "recursion_limit E = Suc (Suc (Suc (Suc (Suc (Suc (recursion_limit E - 6))))))"
    by simp
  then obtain n where n: "recursion_limit E = Suc (Suc (Suc (Suc (Suc (Suc n)))))"
    by blast
  show ?thesis
    using assms(1,2)
    by (simp add: minimize_def package_minimize_names n visit_example_1 visit_example_2
        strip_examples select_output_short)
qed

theorem minimize_examples_witness:
  "minimize sample_env [] (''if True:'' @ [CHR 0x0A] @ ''    x = 1'' @ [CHR 0x0A] @ ''    y = 2'' @ [CHR 0x0A])
             True False = Some (''if True:x=1;y=2'', [])
         \<and> minimize sample_env [] (''if True:'' @ [CHR 0x0A] @ ''    return ...'' @ [CHR 0x0A]) True False
             = Some (''if True:return...'', [])"
proof -
  have a: "ast_parse sample_env (''if True:'' @ [CHR 0x0A] @ ''    x = 1'' @ [CHR 0x0A] @ ''    y = 2'' @ [CHR 0x0A])
             = Some (Module [If (Constant (CBool True))
                               [Assign [Name ''x''] (Constant (CInt 1)),
                                Assign [Name ''y''] (Constant (CInt 2))] []])"
    by (simp add: sample_env_def sample_parse_def)
  have b: "ast_parse sample_env (''if True:'' @ [CHR 0x0A] @ ''    return ...'' @ [CHR 0x0A])
             = Some (Module [If (Constant (CBool True)) [Return (Some (Constant CEllipsis))] []])"
    by (simp add: sample_env_def sample_parse_def)
  have c: "6 \<le> recursion_limit sample_env"
    by (simp add: sample_env_def)
  show ?thesis by (rule minimize_examples [OF a b c])
qed


section \<open>Output selection: properties\<close>

lemma first_shortest_single: "first_shortest [c] c"
  by (simp add: first_shortest_def)

lemma first_shortest_snoc:
  assumes "first_shortest cs r"
  shows "first_shortest (cs @ [v]) (shorter_of r v)"
proof -
  from assms obtain i where i: "i < length cs" "r = cs ! i"
    and le: "\<forall>j < length cs. length r \<le> length (cs ! j)"
    and lt: "\<forall>j < i. length r < length (cs ! j)"
    by (auto simp: first_shortest_def)
  show ?thesis
  proof (cases "length v < length r")
    case True
    have "\<forall>j < length cs. length v < length (cs ! j)"
      using le True by fastforce
    then show ?thesis
      unfolding first_shortest_def
      by (intro exI [of _ "length cs"]) (auto simp: shorter_of_def True nth_append less_Suc_eq)
  next
    case False
    then show ?thesis
      unfolding first_shortest_def
      using i le lt
      by (intro exI [of _ i]) (auto simp: shorter_of_def nth_append less_Suc_eq)
  qed
qed

lemma first_shortest_foldl:
  "first_shortest cs r \<Longrightarrow>
   first_shortest (cs @ vs) (foldl shorter_of r vs)"
proof (induction vs arbitrary: cs r)
  case Nil
  then show ?case by simp
next
  case (Cons v vs)
  from first_shortest_snoc [OF Cons.prems, of v]
  have "first_shortest ((cs @ [v]) @ vs) (foldl shorter_of (shorter_of r v) vs)"
    by (rule Cons.IH)
  then show ?case by simp
qed

lemma foldl_stubs:
  "foldl (\<lambda>codes c. shorter_of codes (codec_stub E minimized c)) r cs
     = foldl shorter_of r (map (codec_stub E minimized) cs)"
  by (induction cs arbitrary: r) simp_all

lemma first_shortest_pair:
  "first_shortest [raw_code, minimized] (if length minimized < length raw_code then minimized else raw_code)"
  using first_shortest_snoc [OF first_shortest_single, of raw_code minimized]
  by (simp add: shorter_of_def)

lemma select_output_unforced:
  "first_shortest
     ([raw_code, minimized] @ map (codec_stub E minimized) [Lzma, Zlib, Gzip, Bz2] @ [alone_stub E minimized])
     (select_output E raw_code minimized True False)"
proof -
  have "first_shortest
          (([raw_code, minimized] @ map (codec_stub E minimized) [Lzma, Zlib, Gzip, Bz2]) @ [alone_stub E minimized])
          (shorter_of (foldl shorter_of (if length minimized < length raw_code then minimized else raw_code)
                         (map (codec_stub E minimized) [Lzma, Zlib, Gzip, Bz2]))
             (alone_stub E minimized))"
    by (intro first_shortest_snoc first_shortest_foldl first_shortest_pair)
  then show ?thesis
    by (simp add: select_output_def foldl_stubs del: foldl.simps list.map)
qed

lemma select_output_forced:
  "first_shortest
     ([alone_stub E minimized] @ map (codec_stub E minimized) [Lzma, Zlib, Gzip, Bz2])
     (select_output E raw_code minimized compress_flag True)"
proof -
  have a: "first_shortest
          ([alone_stub E minimized] @ map (codec_stub E minimized) [Lzma, Zlib, Gzip, Bz2])
          (foldl shorter_of (alone_stub E minimized) (map (codec_stub E minimized) [Lzma, Zlib, Gzip, Bz2]))"
    by (intro first_shortest_foldl first_shortest_single)
  have b: "shorter_of r (alone_stub E minimized) = r"
    if "first_shortest ([alone_stub E minimized] @ vs) r" for r vs
    using that by (force simp: first_shortest_def shorter_of_def)
  show ?thesis
    using a b [OF a]
    by (simp add: select_output_def foldl_stubs del: foldl.simps list.map)
qed

lemma minimize_unfold:
  assumes "ast_parse E raw_code = Some tree"
    and "visit (math_lib E) minimize_names (recursion_limit E) tree (new_Minimize names) = Some (text, st)"
  shows "minimize E names raw_code compress_flag compress_required
           = Some (select_output E raw_code (strip_chars (whitespace @ '';'') text)
                     compress_flag compress_required, import_names st)"
  using assms by (simp add: minimize_def package_minimize_names)

lemma sample_visit:
  "visit (math_lib sample_env) minimize_names (recursion_limit sample_env)
     (Module [Assign [Name ''x''] (Constant (CInt 1))]) (new_Minimize [])
   = Some (''x=1'', \<lparr>source = [[], ''x'', ''='', ''1'', '';''], indent = 0, indent_mem = 0,
                      import_names = []\<rparr>)"
  by code_simp

lemma sample_strip: "strip_chars (whitespace @ '';'') ''x=1'' = ''x=1''"
  by code_simp

text \<open>
  C6, as amended. With compression enabled and not forced, the text \<open>minimize\<close> returns is
  one of the candidates (the raw source, the minimized text, the stubs of lzma, zlib, gzip
  and bz2, the stub of lzma in its \<open>FORMAT_ALONE\<close>, in the order the code generates them),
  no candidate is shorter, and every candidate generated before it is strictly longer. The
  lengths are numbers of characters, what \<open>len\<close> gives for the texts, and not numbers of
  bytes.
\<close>

theorem minimize_returns_first_shortest:
  assumes "ast_parse E raw_code = Some tree"
    and "visit (math_lib E) minimize_names (recursion_limit E) tree (new_Minimize names) = Some (text, st)"
    and "minimized = strip_chars (whitespace @ '';'') text"
  shows "\<exists>out. minimize E names raw_code True False = Some (out, import_names st)
           \<and> first_shortest
                ([raw_code, minimized] @ map (codec_stub E minimized) [Lzma, Zlib, Gzip, Bz2]
                   @ [alone_stub E minimized]) out"
  using minimize_unfold [OF assms(1,2)] select_output_unforced [of raw_code minimized E] assms(3)
  by simp

theorem minimize_returns_first_shortest_witness:
  "ast_parse sample_env ''x = 1'' = Some (Module [Assign [Name ''x''] (Constant (CInt 1))])
   \<and> visit (math_lib sample_env) minimize_names (recursion_limit sample_env)
         (Module [Assign [Name ''x''] (Constant (CInt 1))]) (new_Minimize [])
       = Some (''x=1'', \<lparr>source = [[], ''x'', ''='', ''1'', '';''], indent = 0, indent_mem = 0,
                          import_names = []\<rparr>)
   \<and> ''x=1'' = strip_chars (whitespace @ '';'') ''x=1''
   \<and> (\<exists>out. minimize sample_env [] ''x = 1'' True False = Some (out, [])
         \<and> first_shortest
              ([''x = 1'', ''x=1''] @ map (codec_stub sample_env ''x=1'') [Lzma, Zlib, Gzip, Bz2]
                 @ [alone_stub sample_env ''x=1'']) out)"
proof -
  have a: "ast_parse sample_env ''x = 1'' = Some (Module [Assign [Name ''x''] (Constant (CInt 1))])"
    by (simp add: sample_env_def sample_parse_def)
  have c: "''x=1'' = strip_chars (whitespace @ '';'') ''x=1''"
    by (simp add: sample_strip)
  from minimize_returns_first_shortest [OF a sample_visit c]
  show ?thesis using a sample_visit c by simp
qed

text \<open>
  In bytes the text returned can be longer than a candidate. For the identifier of 60
  letters of code point 233 the raw source and the minimized text have 60 characters and
  120 bytes, the stub of zlib has 74 characters and 74 bytes: \<open>minimize\<close> returns the raw
  source.
\<close>

theorem byte_length_counterexample:
  "minimize accent_env [] accent_name True False = Some (accent_name, [])
   \<and> length accent_name = 60
   \<and> byte_length accent_name = 120
   \<and> length (codec_stub accent_env accent_name Zlib) = 74
   \<and> byte_length (codec_stub accent_env accent_name Zlib) = 74"
  by code_simp

text \<open>
  C7, as amended. When compression is forced, the raw source and the minimized text are
  left out of the comparison: whatever \<open>compress\<close> is, the text returned is one of the five
  stubs (lzma in its \<open>FORMAT_ALONE\<close>, then lzma, zlib, gzip and bz2), none of the five is
  shorter, and every stub generated before it is strictly longer. So the output is never
  the plain text, and it is the lzma stub only when no other stub is shorter.
\<close>

theorem forced_returns_shortest_stub:
  assumes "ast_parse E raw_code = Some tree"
    and "visit (math_lib E) minimize_names (recursion_limit E) tree (new_Minimize names) = Some (text, st)"
    and "minimized = strip_chars (whitespace @ '';'') text"
  shows "\<exists>out. minimize E names raw_code compress_flag True = Some (out, import_names st)
           \<and> first_shortest
                ([alone_stub E minimized] @ map (codec_stub E minimized) [Lzma, Zlib, Gzip, Bz2]) out"
  using minimize_unfold [OF assms(1,2)]
    select_output_forced [of E minimized raw_code compress_flag] assms(3)
  by simp

theorem forced_returns_shortest_stub_witness:
  "ast_parse sample_env ''x = 1'' = Some (Module [Assign [Name ''x''] (Constant (CInt 1))])
   \<and> visit (math_lib sample_env) minimize_names (recursion_limit sample_env)
         (Module [Assign [Name ''x''] (Constant (CInt 1))]) (new_Minimize [])
       = Some (''x=1'', \<lparr>source = [[], ''x'', ''='', ''1'', '';''], indent = 0, indent_mem = 0,
                          import_names = []\<rparr>)
   \<and> ''x=1'' = strip_chars (whitespace @ '';'') ''x=1''
   \<and> (\<exists>out. minimize sample_env [] ''x = 1'' False True = Some (out, [])
         \<and> first_shortest
              ([alone_stub sample_env ''x=1''] @ map (codec_stub sample_env ''x=1'') [Lzma, Zlib, Gzip, Bz2])
              out)"
proof -
  have a: "ast_parse sample_env ''x = 1'' = Some (Module [Assign [Name ''x''] (Constant (CInt 1))])"
    by (simp add: sample_env_def sample_parse_def)
  have c: "''x=1'' = strip_chars (whitespace @ '';'') ''x=1''"
    by (simp add: sample_strip)
  from forced_returns_shortest_stub [OF a sample_visit c, of False]
  show ?thesis using a sample_visit c by simp
qed

text \<open>
  For the text \<open>x = 1\<close>, with the bytes the codecs return for \<open>x=1\<close>, forced compression
  returns the zlib stub, which is neither of the two lzma stubs.
\<close>

theorem forced_not_lzma_counterexample:
  "minimize sample_env [] ''x = 1'' True True = Some (codec_stub sample_env ''x=1'' Zlib, [])
   \<and> codec_stub sample_env ''x=1'' Zlib \<noteq> alone_stub sample_env ''x=1''
   \<and> codec_stub sample_env ''x=1'' Zlib \<noteq> codec_stub sample_env ''x=1'' Lzma"
  by code_simp


section \<open>Block compaction: properties\<close>

lemma skip_merge_cong:
  assumes "length cur = length lines" "cur ! i = lines ! i" "cur ! (i + 1) = lines ! (i + 1)"
    "i + 2 < length lines \<Longrightarrow> cur ! (i + 2) = lines ! (i + 2)"
  shows "skip_merge cur ls2 i = skip_merge lines ls2 i"
  using assms by (simp add: skip_merge_def next_line_of_def)

lemma merge_loop_closed:
  assumes "sorted_wrt (<) idx" "length cur = length lines"
    and "\<forall>i \<in> set idx. \<forall>k \<ge> i. cur ! k = lines ! k"
    and "\<forall>i \<in> set idx. i + 1 < length lines"
  shows "\<exists>cur'. merge_loop ls2 idx cur to_del
           = Some (cur', to_del @ map Suc (filter (\<lambda>i. \<not> skip_merge lines ls2 i) idx))
         \<and> length cur' = length lines
         \<and> (\<forall>i \<in> set idx. cur' ! i = merged_line lines ls2 i)
         \<and> (\<forall>k. k \<notin> set idx \<longrightarrow> cur' ! k = cur ! k)"
  using assms
proof (induction idx arbitrary: cur to_del)
  case Nil
  then show ?case by simp
next
  case (Cons i idx)
  have len: "i + 1 < length cur" using Cons.prems by simp
  have same: "cur ! k = lines ! k" if "k \<ge> i" for k using Cons.prems(3) that by simp
  have sk: "skip_merge cur ls2 i = skip_merge lines ls2 i"
    by (rule skip_merge_cong) (use Cons.prems same in auto)
  let ?cur = "if skip_merge lines ls2 i then cur else cur[i := lines ! i @ strip (lines ! (i + 1))]"
  let ?td = "if skip_merge lines ls2 i then to_del else to_del @ [i + 1]"
  have gt: "\<forall>j \<in> set idx. i < j" using Cons.prems(1) by simp
  have step: "merge_loop ls2 (i # idx) cur to_del = merge_loop ls2 idx ?cur ?td"
    using len sk same [of i] same [of "i + 1"] by simp
  have p2: "length ?cur = length lines" using Cons.prems by simp
  have p4: "\<forall>j \<in> set idx. \<forall>k \<ge> j. ?cur ! k = lines ! k"
    using gt same by (auto simp: nth_list_update)
  from Cons.IH [of ?cur ?td] Cons.prems p2 p4
  obtain cur' where r: "merge_loop ls2 idx ?cur ?td
           = Some (cur', ?td @ map Suc (filter (\<lambda>i. \<not> skip_merge lines ls2 i) idx))"
    "length cur' = length lines"
    "\<forall>j \<in> set idx. cur' ! j = merged_line lines ls2 j"
    "\<forall>k. k \<notin> set idx \<longrightarrow> cur' ! k = ?cur ! k"
    by auto
  have ni: "i \<notin> set idx" using gt by auto
  have "cur' ! i = merged_line lines ls2 i"
    using r(4) ni same [of i] same [of "i + 1"] len Cons.prems(2) by (auto simp: merged_line_def)
  moreover have "\<forall>k. k \<notin> set (i # idx) \<longrightarrow> cur' ! k = cur ! k"
    using r(4) by (auto simp: nth_list_update)
  ultimately show ?case
    using step r by auto
qed


lemma header_indices_set:
  "set (header_indices lines) = {i. i < length lines \<and> endswith_colon (lines ! i)}"
  by (auto simp: header_indices_def)

lemma header_indices_sorted: "sorted_wrt (<) (header_indices lines)"
  by (simp add: header_indices_def sorted_wrt_filter)

lemma delete_loop_returns:
  "sorted_wrt (<) ts \<Longrightarrow> \<forall>t \<in> set ts. offset \<le> t \<and> t < length ls + offset \<Longrightarrow>
   \<exists>r. delete_loop ts (int offset) ls = Some r"
proof (induction ts arbitrary: offset ls)
  case Nil
  then show ?case by simp
next
  case (Cons t ts)
  have t: "offset \<le> t" "t < length ls + offset" using Cons.prems by auto
  then obtain ls' where d: "del_item (int t - int offset) ls = Some ls'" "length ls' = length ls - 1"
    by (auto simp: del_item_def Let_def)
  have "\<forall>u \<in> set ts. Suc offset \<le> u \<and> u < length ls' + Suc offset"
    using Cons.prems t d(2) by fastforce
  from Cons.IH [OF _ this] Cons.prems(1)
  obtain r where "delete_loop ts (int (Suc offset)) ls' = Some r" by auto
  then show ?case using d(1) by (simp add: add.commute)
qed

text \<open>
  C4, as amended. When no line that ends with a colon is the last line, the first loop of
  \<open>post_process\<close> ends, and for every line \<open>i\<close> that ends with a colon the following line
  is spliced onto it (and marked for deletion) if and only if the header is the line before
  the last, or its indentation is strictly less than the following line's and not strictly
  less than that of the line after (an absent line counting as empty); \<open>post_process\<close>
  then returns a text.
\<close>

theorem header_merge_rule:
  assumes "lines = prepare_lines src"
    and "\<forall>i < length lines. endswith_colon (lines ! i) \<longrightarrow> i + 1 < length lines"
  shows "\<exists>lines' to_del out.
           merge_loop (int (length lines) - 2) (header_indices lines) lines [] = Some (lines', to_del)
           \<and> post_process src = Some out
           \<and> (\<forall>i < length lines. endswith_colon (lines ! i) \<longrightarrow>
                 (Suc i \<in> set to_del \<longleftrightarrow>
                    (int i = int (length lines) - 2
                     \<or> (get_indent (lines ! i) < get_indent (lines ! (i + 1))
                        \<and> \<not> get_indent (lines ! i) < get_indent (next_line_of lines i))))
                 \<and> lines' ! i = (if Suc i \<in> set to_del then lines ! i @ strip (lines ! (i + 1))
                                  else lines ! i))"
proof -
  let ?ls2 = "int (length lines) - 2"
  let ?idx = "header_indices lines"
  let ?td = "map Suc (filter (\<lambda>i. \<not> skip_merge lines ?ls2 i) ?idx)"
  have b: "\<forall>i \<in> set ?idx. i + 1 < length lines"
    using assms(2) by (simp add: header_indices_set)
  from merge_loop_closed [OF header_indices_sorted, of lines lines lines ?ls2 "[]"] b
  obtain lines' where m: "merge_loop ?ls2 ?idx lines [] = Some (lines', ?td)"
    and len: "length lines' = length lines"
    and ml: "\<forall>i \<in> set ?idx. lines' ! i = merged_line lines ?ls2 i"
    by auto
  have s: "sorted_wrt (<) ?td"
    using header_indices_sorted [of lines]
    by (simp add: sorted_wrt_map sorted_wrt_filter)
  have "\<forall>t \<in> set ?td. 0 \<le> t \<and> t < length lines' + 0"
    using b len by auto
  from delete_loop_returns [OF s this]
  obtain r where d: "delete_loop ?td 0 lines' = Some r" by auto
  have p: "post_process src = Some (join [CHR 0x0A] r)"
    using m d assms(1) by (simp add: post_process_def Let_def)
  have td: "(Suc i \<in> set ?td) = (i \<in> set ?idx \<and> \<not> skip_merge lines ?ls2 i)" for i
    by auto
  show ?thesis
    apply (intro exI [of _ lines'] exI [of _ ?td] exI [of _ "join [CHR 0x0A] r"] conjI m p)
    apply (intro allI impI)
    subgoal for i
      using ml td [of i]
      by (auto simp: header_indices_set merged_line_def skip_merge_def Let_def)
    done
qed

theorem header_merge_rule_witness:
  "[''if a:'', '' b'', ''c''] = prepare_lines (''if a:'' @ [CHR 0x0A] @ '' b;'' @ [CHR 0x0A] @ ''c;'')
   \<and> (\<exists>lines' to_del.
         merge_loop 1 (header_indices [''if a:'', '' b'', ''c'']) [''if a:'', '' b'', ''c''] []
           = Some (lines', to_del)
         \<and> post_process (''if a:'' @ [CHR 0x0A] @ '' b;'' @ [CHR 0x0A] @ ''c;'')
             = Some (''if a:b'' @ [CHR 0x0A] @ ''c'')
         \<and> Suc 0 \<in> set to_del \<and> lines' ! 0 = ''if a:b'')"
proof -
  let ?src = "''if a:'' @ [CHR 0x0A] @ '' b;'' @ [CHR 0x0A] @ ''c;''"
  let ?lines = "[''if a:'', '' b'', ''c'']"
  have a: "?lines = prepare_lines ?src" by code_simp
  have b: "\<forall>i < length ?lines. endswith_colon (?lines ! i) \<longrightarrow> i + 1 < length ?lines"
    by (simp add: endswith_colon_def less_Suc_eq numeral_3_eq_3)
  have pp: "post_process ?src = Some (''if a:b'' @ [CHR 0x0A] @ ''c'')" by code_simp
  have h: "endswith_colon (?lines ! 0)" by (simp add: endswith_colon_def)
  have g: "get_indent (?lines ! 0) < get_indent (?lines ! (0 + 1))
           \<and> \<not> get_indent (?lines ! 0) < get_indent (next_line_of ?lines 0)"
    by (simp add: get_indent_def dedent_def next_line_of_def)
  from header_merge_rule [OF a b]
  obtain lines' to_del out where
    m: "merge_loop (int (length ?lines) - 2) (header_indices ?lines) ?lines [] = Some (lines', to_del)"
    and r: "\<forall>i < length ?lines. endswith_colon (?lines ! i) \<longrightarrow>
                 (Suc i \<in> set to_del \<longleftrightarrow>
                    (int i = int (length ?lines) - 2
                     \<or> (get_indent (?lines ! i) < get_indent (?lines ! (i + 1))
                        \<and> \<not> get_indent (?lines ! i) < get_indent (next_line_of ?lines i))))
                 \<and> lines' ! i = (if Suc i \<in> set to_del then ?lines ! i @ strip (?lines ! (i + 1))
                                  else ?lines ! i)"
    by blast
  from r [rule_format, of 0] h g
  have "Suc 0 \<in> set to_del" "lines' ! 0 = ''if a:'' @ strip '' b''"
    by auto
  moreover have "strip '' b'' = ''b''" by code_simp
  ultimately show ?thesis
    using m pp by (intro conjI a exI [of _ lines'] exI [of _ to_del]) simp_all
qed

text \<open>
  A header that is the line before the last gets the last line spliced onto it whatever the
  indentations are: here both lines have indentation 0.
\<close>

theorem header_merge_counterexample:
  "prepare_lines (''if a:'' @ [CHR 0x0A] @ ''import os;x=1;'') = [''if a:'', ''import os;x=1'']
   \<and> get_indent ''if a:'' \<ge> get_indent ''import os;x=1''
   \<and> post_process (''if a:'' @ [CHR 0x0A] @ ''import os;x=1;'') = Some ''if a:import os;x=1''"
  by code_simp


section \<open>Parenthesisation: properties\<close>

lemma level_next: "q \<noteq> P_ATOM \<Longrightarrow> level (next_level q) = Suc (level q)"
  by (cases q) simp_all

lemma expr_not_wrapped: "class_name (NExpr p e) \<notin> minimize_names"
  by (cases e) simp_all

lemma import_names_write [simp]: "import_names (write_str t st) = import_names st"
  by (simp add: write_str_def)

lemma needs_flush_write [simp]: "needs_flush (write_str t st) = needs_flush st"
  by (simp add: needs_flush_def)

lemma require_parens_total:
  assumes "\<And>s. \<not> needs_flush s \<Longrightarrow> body s = Some (f s)" and "\<not> needs_flush st"
  shows "require_parens prec p body st = Some (spec_wrap (level prec < level p) f st)"
proof -
  have "\<not> needs_flush (write_str ''('' (st\<lparr>source := xs\<rparr>))" for xs
    using assms(2) by (simp add: needs_flush_def write_str_def)
  moreover have "\<not> needs_flush (write_str ''('' st)"
    using assms(2) by simp
  ultimately show ?thesis
    using assms
    by (simp add: require_parens_def delimit_if_def delimit_def spec_wrap_def strip_def isspace_def)
qed

lemma parens_condition:
  "strict \<longrightarrow> required \<noteq> P_ATOM \<Longrightarrow>
   (level (own_precedence e) < level (if strict then next_level required else required))
     = spec_needs_parens required strict e"
  by (auto simp: spec_needs_parens_def level_next)

lemma needs_flush_wrap:
  assumes "\<And>s. needs_flush (f s) = needs_flush s"
  shows "needs_flush (spec_wrap b f st) = needs_flush st"
  using assms by (simp add: spec_wrap_def needs_flush_def write_str_def)

lemma needs_flush_spec:
  "needs_flush (spec_expr q strict e st) = needs_flush st"
  "needs_flush (spec_operands ops es st) = needs_flush st"
proof (induction q strict e st and ops es st rule: spec_expr_spec_operands.induct)
  case (3 required strict l op r st)
  show ?case
    by (simp add: needs_flush_wrap 3)
next
  case (4 required strict op e st)
  show ?case
    by (simp add: needs_flush_wrap 4)
next
  case (5 required strict l ops comparators st)
  show ?case
    by (simp add: needs_flush_wrap 5)
next
  case (6 cmp ops e es st)
  then show ?case by simp
qed simp_all

lemma literal_constant:
  "literal_ints L (Constant c) \<Longrightarrow>
   visit_Constant L trav c st = Some (write_str (spec_literal c) st)"
  by (cases c) (simp_all add: visit_Constant_def spec_literal_def literal_int_def Let_def)

lemma depth_of_member:
  "e \<in> set es \<Longrightarrow> depth_of e \<le> fold (\<lambda>e m. max (depth_of e) m) es m0"
proof -
  have mono: "m0 \<le> fold (\<lambda>e m. max (depth_of e) m) es m0" for es m0
  proof (induction es arbitrary: m0)
    case Nil
    then show ?case by simp
  next
    case (Cons a es)
    have "m0 \<le> max (depth_of a) m0" by simp
    also have "\<dots> \<le> fold (\<lambda>e m. max (depth_of e) m) es (max (depth_of a) m0)" by (rule Cons.IH)
    finally show ?case by simp
  qed
  show "e \<in> set es \<Longrightarrow> depth_of e \<le> fold (\<lambda>e m. max (depth_of e) m) es m0"
  proof (induction es arbitrary: m0)
    case Nil
    then show ?case by simp
  next
    case (Cons a es)
    then show ?case
      using mono [of "max (depth_of a) m0" es] by auto
  qed
qed

lemma operands_total:
  assumes "\<And>e st. e \<in> set es \<Longrightarrow> \<not> needs_flush st \<Longrightarrow>
             trav (NExpr (next_level P_CMP) e) st = Some (spec_expr P_CMP True e st)"
    and "\<not> needs_flush st"
  shows "for_each (\<lambda>(cmp, e) s. trav (NExpr (next_level P_CMP) e) (write_str (cmpops cmp) s))
           (zip ops es) st = Some (spec_operands ops es st)"
  using assms
proof (induction ops es arbitrary: st rule: list_induct2')
  case (4 cmp ops e es)
  have "trav (NExpr (next_level P_CMP) e) (write_str (cmpops cmp) st)
          = Some (spec_expr P_CMP True e (write_str (cmpops cmp) st))"
    using 4 by simp
  moreover have "\<not> needs_flush (spec_expr P_CMP True e (write_str (cmpops cmp) st))"
    using 4(3) by (simp add: needs_flush_spec)
  ultimately show ?case
    using 4 by simp
qed simp_all

text \<open>
  Where the rule holds. For every expression whose integer constants are all printed as
  literals, at a position that requires the level \<open>required\<close> (and refuses equal precedence
  when \<open>strict\<close>), the printer writes exactly the text of the rule: parentheses around a
  subexpression if and only if its own precedence is strictly lower than the level its
  position requires, or equal to it on the side where the operator does not associate. The
  position is passed to the printer as the level \<open>required\<close>, or the next level when
  \<open>strict\<close>.
\<close>

theorem parentheses_follow_the_rule:
  assumes "literal_ints L e" "depth_of e \<le> fuel" "\<not> needs_flush st"
    and "strict \<longrightarrow> required \<noteq> P_ATOM"
  shows "traverse L minimize_names fuel (NExpr (if strict then next_level required else required) e) st
           = Some (spec_expr required strict e st)"
  using assms
proof (induction e arbitrary: fuel st required strict)
  case (Name x)
  then obtain d where d: "fuel = Suc d" by (cases fuel) auto
  show ?case using Name d
    by (simp add: traverse_expr dispatch_def visit_Name_def)
next
  case (Constant c)
  then obtain d where d: "fuel = Suc d" by (cases fuel) auto
  show ?case using Constant d literal_constant [OF Constant(1)]
    by (simp add: traverse_expr dispatch_def)
next
  case (BinOp l op r)
  then obtain d where d: "fuel = Suc d" by (cases fuel) auto
  let ?p = "if strict then next_level required else required"
  let ?q = "binop_precedence op"
  have q: "?q \<noteq> P_ATOM" by (cases op) simp_all
  have rassoc: "(binop op \<in> set binop_rassoc) = (op = Pow_op)"
    by (cases op) (simp_all add: binop_rassoc_def)
  have dl: "depth_of l \<le> d" and dr: "depth_of r \<le> d" using BinOp.prems d by auto
  have "visit_BinOp (traverse L minimize_names d) pp l op r st
          = Some (spec_wrap (level ?q < level pp)
                    (\<lambda>s. spec_expr ?q (op \<noteq> Pow_op) r
                            (write_str (binop op) (spec_expr ?q (op = Pow_op) l s))) st)" for pp
  proof (cases "op = Pow_op")
    case True
    have Lf: "traverse L minimize_names d (NExpr (next_level ?q) l) s = Some (spec_expr ?q True l s)"
      if "\<not> needs_flush s" for s
      using BinOp.IH(1) [of d s True ?q] BinOp.prems dl q that by simp
    have Rf: "traverse L minimize_names d (NExpr ?q r) s = Some (spec_expr ?q False r s)"
      if "\<not> needs_flush s" for s
      using BinOp.IH(2) [of d s False ?q] BinOp.prems dr q that by simp
    have "require_parens ?q pp
            (\<lambda>st. traverse L minimize_names d (NExpr (next_level ?q) l) st
                  \<bind> (\<lambda>s. Some (write_str (binop op) s))
                  \<bind> traverse L minimize_names d (NExpr ?q r)) st
          = Some (spec_wrap (level ?q < level pp)
                    (\<lambda>s. spec_expr ?q False r (write_str (binop op) (spec_expr ?q True l s))) st)"
      by (rule require_parens_total) (simp_all add: Lf Rf needs_flush_spec BinOp.prems(3))
    then show ?thesis
      using True by (simp add: visit_BinOp_def Let_def binop_rassoc_def)
  next
    case False
    have Lf: "traverse L minimize_names d (NExpr ?q l) s = Some (spec_expr ?q False l s)"
      if "\<not> needs_flush s" for s
      using BinOp.IH(1) [of d s False ?q] BinOp.prems dl q that by simp
    have Rf: "traverse L minimize_names d (NExpr (next_level ?q) r) s = Some (spec_expr ?q True r s)"
      if "\<not> needs_flush s" for s
      using BinOp.IH(2) [of d s True ?q] BinOp.prems dr q that by simp
    have "require_parens ?q pp
            (\<lambda>st. traverse L minimize_names d (NExpr ?q l) st
                  \<bind> (\<lambda>s. Some (write_str (binop op) s))
                  \<bind> traverse L minimize_names d (NExpr (next_level ?q) r)) st
          = Some (spec_wrap (level ?q < level pp)
                    (\<lambda>s. spec_expr ?q True r (write_str (binop op) (spec_expr ?q False l s))) st)"
      by (rule require_parens_total) (simp_all add: Lf Rf needs_flush_spec BinOp.prems(3))
    then show ?thesis
      using False rassoc by (simp add: visit_BinOp_def Let_def)
  qed
  from this [of ?p] show ?case
    using BinOp.prems(3,4) d parens_condition [of strict required "BinOp l op r"]
    by (simp add: traverse_expr dispatch_def del: spec_expr.simps)
       (simp add: spec_needs_parens_def)
next
  case (UnaryOp op e)
  then obtain d where d: "fuel = Suc d" by (cases fuel) auto
  let ?p = "if strict then next_level required else required"
  let ?q = "unop_precedence op"
  have de: "depth_of e \<le> d" using UnaryOp.prems d by auto
  have E: "traverse L minimize_names d (NExpr ?q e) s = Some (spec_expr ?q False e s)"
    if "\<not> needs_flush s" for s
    using UnaryOp.IH [of d s False ?q] UnaryOp.prems de that by simp
  have f: "(?q \<noteq> P_FACTOR) = (op = Not_op)" by (cases op) simp_all
  have "visit_UnaryOp (traverse L minimize_names d) ?p op e st
          = Some (spec_wrap (level ?q < level ?p)
                    (\<lambda>s. spec_expr ?q False e
                            (if op = Not_op then write_str '' '' (write_str (unop op) s)
                             else write_str (unop op) s)) st)"
    unfolding visit_UnaryOp_def Let_def f
    by (rule require_parens_total) (use E UnaryOp.prems in \<open>simp_all\<close>)
  then show ?case
    using UnaryOp.prems(3,4) d parens_condition [of strict required "UnaryOp op e"]
    by (simp add: traverse_expr dispatch_def)
next
  case (Compare l ops comparators)
  then obtain d where d: "fuel = Suc d" by (cases fuel) auto
  let ?p = "if strict then next_level required else required"
  have dl: "depth_of l \<le> d" using Compare.prems d by auto
  have dc: "depth_of e \<le> d" if "e \<in> set comparators" for e
    using Compare.prems(2) d depth_of_member [OF that, of 0] by auto
  have lc: "literal_ints L e" if "e \<in> set comparators" for e
    using Compare.prems(1) that by (simp add: list_all_iff)
  have Lf: "traverse L minimize_names d (NExpr P_EXPR l) s = Some (spec_expr P_CMP True l s)"
    if "\<not> needs_flush s" for s
    using Compare.IH(1) [of d s True P_CMP] Compare.prems dl that by simp
  have C: "traverse L minimize_names d (NExpr (next_level P_CMP) e) s = Some (spec_expr P_CMP True e s)"
    if "e \<in> set comparators" "\<not> needs_flush s" for e s
    using Compare.IH(2) [OF that(1), of d s True P_CMP] lc dc that by simp
  have body: "(traverse L minimize_names d (NExpr (next_level P_CMP) l) s
                \<bind> for_each (\<lambda>(cmp, e) s. traverse L minimize_names d (NExpr (next_level P_CMP) e)
                                   (write_str (cmpops cmp) s)) (zip ops comparators))
              = Some (spec_operands ops comparators (spec_expr P_CMP True l s))"
    if "\<not> needs_flush s" for s
    using that operands_total [of comparators "traverse L minimize_names d", OF C]
    by (simp add: Lf needs_flush_spec)
  have "visit_Compare (traverse L minimize_names d) ?p l ops comparators st
          = Some (spec_wrap (level P_CMP < level ?p)
                    (\<lambda>s. spec_operands ops comparators (spec_expr P_CMP True l s)) st)"
    unfolding visit_Compare_def
    by (rule require_parens_total) (use body Compare.prems in \<open>simp_all\<close>)
  then show ?case
    using Compare.prems(3,4) d parens_condition [of strict required "Compare l ops comparators"]
    by (simp add: traverse_expr dispatch_def)
qed


theorem parentheses_follow_the_rule_witness:
  "literal_ints sample_math (BinOp (BinOp (Name ''a'') Sub (Constant (CInt 1))) Pow_op (Constant (CInt 2)))
   \<and> depth_of (BinOp (BinOp (Name ''a'') Sub (Constant (CInt 1))) Pow_op (Constant (CInt 2))) \<le> 3
   \<and> \<not> needs_flush (new_Minimize [])
   \<and> traverse sample_math minimize_names 3
         (NExpr P_TEST (BinOp (BinOp (Name ''a'') Sub (Constant (CInt 1))) Pow_op (Constant (CInt 2))))
         (new_Minimize [])
       = Some ((new_Minimize [])\<lparr>source := [''('', ''a'', ''-'', ''1'', '')'', ''**'', ''2'']\<rparr>)"
proof -
  let ?e = "BinOp (BinOp (Name ''a'') Sub (Constant (CInt 1))) Pow_op (Constant (CInt 2))"
  have a: "literal_ints sample_math ?e"
    by (simp add: literal_int_def power_of_def)
  have b: "depth_of ?e \<le> 3" by simp
  have c: "\<not> needs_flush (new_Minimize [])" by (simp add: needs_flush_def new_Minimize_def)
  have d: "False \<longrightarrow> P_TEST \<noteq> P_ATOM" by simp
  have e: "spec_expr P_TEST False ?e (new_Minimize [])
             = (new_Minimize [])\<lparr>source := [''('', ''a'', ''-'', ''1'', '')'', ''**'', ''2'']\<rparr>"
    by (simp add: spec_wrap_def spec_needs_parens_def spec_literal_def write_str_def new_Minimize_def
        repr_int_def repr_nat.simps)
  from parentheses_follow_the_rule [OF a b c d] e
  show ?thesis using a b c by simp
qed

lemma exact_log_100000: "exact_log 10 23 100000 = 5"
  by code_simp

lemma bit_length_100000: "bit_length 100000 = 17"
  by (simp add: bit_length.simps)

lemma rewritten_100000:
  "visit_Constant sample_math trav (CInt 100000) st
     = trav (NExpr P_TEST (BinOp (Constant (CInt 10)) Pow_op (Constant (CInt 5)))) st"
  by (simp add: visit_Constant_def power_of_def math_log_def long_as_double_def bit_length_100000
      round_shift_def sample_math_def exact_log_100000 whole_def int_of_float_def)

text \<open>
  C2, where the code departs from it. The power that \<open>visit_Constant\<close> writes for a
  rewritten integer is a fresh node with no recorded precedence, so it gets no parentheses
  whatever its position: \<open>100000 ** 2\<close> is printed as \<open>10**5**2\<close>, the text also printed
  for \<open>10 ** (5 ** 2)\<close>, a different tree with a different value, although the rule asks
  for parentheses around a power that is the left operand of a power.
\<close>

theorem rewritten_power_loses_parentheses:
  "traverse sample_math minimize_names (Suc (Suc (Suc (Suc (Suc 0)))))
     (NExpr P_TEST (BinOp (Constant (CInt 100000)) Pow_op (Constant (CInt 2)))) (new_Minimize [])
     = Some ((new_Minimize [])\<lparr>source := [''10'', ''**'', ''5'', ''**'', ''2'']\<rparr>)
   \<and> traverse sample_math minimize_names (Suc (Suc (Suc (Suc (Suc 0)))))
       (NExpr P_TEST (BinOp (Constant (CInt 10)) Pow_op
                        (BinOp (Constant (CInt 5)) Pow_op (Constant (CInt 2))))) (new_Minimize [])
     = Some ((new_Minimize [])\<lparr>source := [''10'', ''**'', ''5'', ''**'', ''2'']\<rparr>)
   \<and> BinOp (Constant (CInt 100000)) Pow_op (Constant (CInt 2))
       \<noteq> BinOp (Constant (CInt 10)) Pow_op (BinOp (Constant (CInt 5)) Pow_op (Constant (CInt 2)))
   \<and> spec_needs_parens P_POWER True (BinOp (Constant (CInt 10)) Pow_op (Constant (CInt 5)))"
  by (simp add: traverse_expr dispatch_def needs_flush_def new_Minimize_def visit_BinOp_def
      require_parens_def delimit_if_def binop_rassoc_def rewritten_100000 write_str_def
      repr_int_def repr_nat.simps spec_needs_parens_def Let_def)



end
